theory Spec2Isabelle
  imports Main
begin

section \<open>JavaScript values\<close>

text \<open>
  CertificateApp.js is dynamically typed: a sheet cell, a field of a JSON object and a
  field of the \<open>params\<close> object may hold any value, and the code inspects them only
  through truthiness (\<open>!v\<close>, \<open>v || d\<close>), \<open>v.toString()\<close> and template literals.
  A string is a list of code units, one \<open>char\<close> per unit (code units below 256).
  A number other than 0 and NaN, and an object such as the Date of a date cell, are
  kept as the text their \<open>toString()\<close> returns: both are truthy, and that text is all the
  code reads of them.
\<close>

datatype jsvalue =
    Undefined
  | Null
  | Str string
  | Bool bool
  | NumZero
  | NumNaN
  | Num string
  | Obj string

datatype error =
    TypeError
  | NotFound
  | InvalidArgument

text \<open>
  \<open>TypeError\<close> is what the runtime throws on \<open>undefined.toString()\<close> or
  \<open>undefined.length\<close>; \<open>NotFound\<close> is the exception of a platform service asked for a
  spreadsheet, file or folder that does not exist, \<open>InvalidArgument\<close> the one of a
  service handed a value that it does not take. An operation that throws returns
  \<open>Inl\<close>. An operation that only reads returns \<open>Inl\<close> of the error; one that changes
  the state of the platform returns \<open>Inl\<close> of the error and of the state as it is at
  the throw, since what was stored or sent before the throw stays so.
\<close>

definition bindE :: "'e + 'a \<Rightarrow> ('a \<Rightarrow> 'e + 'b) \<Rightarrow> 'e + 'b" where
  "bindE m f = (case m of Inl e \<Rightarrow> Inl e | Inr x \<Rightarrow> f x)"

definition thrownIn :: "'s \<Rightarrow> error + 'a \<Rightarrow> (error \<times> 's) + 'a" where
  "thrownIn s m = (case m of Inl e \<Rightarrow> Inl (e, s) | Inr x \<Rightarrow> Inr x)"

fun truthy :: "jsvalue \<Rightarrow> bool" where
  "truthy Undefined = False"
| "truthy Null = False"
| "truthy (Str s) = (s \<noteq> [])"
| "truthy (Bool b) = b"
| "truthy NumZero = False"
| "truthy NumNaN = False"
| "truthy (Num s) = True"
| "truthy (Obj s) = True"

text \<open>\<open>a || b\<close>\<close>

definition js_or :: "jsvalue \<Rightarrow> jsvalue \<Rightarrow> jsvalue" where
  "js_or a b = (if truthy a then a else b)"

text \<open>The method call \<open>v.toString()\<close>: it throws on \<open>undefined\<close> and \<open>null\<close>.\<close>

fun toString :: "jsvalue \<Rightarrow> error + string" where
  "toString Undefined = Inl TypeError"
| "toString Null = Inl TypeError"
| "toString (Str s) = Inr s"
| "toString (Bool b) = Inr (if b then ''true'' else ''false'')"
| "toString NumZero = Inr ''0''"
| "toString NumNaN = Inr ''NaN''"
| "toString (Num s) = Inr s"
| "toString (Obj s) = Inr s"

text \<open>The conversion of a template literal, \<open>`${v}`\<close>, which never throws.\<close>

fun interpolate :: "jsvalue \<Rightarrow> string" where
  "interpolate Undefined = ''undefined''"
| "interpolate Null = ''null''"
| "interpolate v = (case toString v of Inl e \<Rightarrow> [] | Inr s \<Rightarrow> s)"

text \<open>
  \<open>String.prototype.trim\<close>: the white space and line terminators among the code units
  below 256 are tab, line feed, vertical tab, form feed, carriage return, space and
  the no-break space.
\<close>

definition isWhiteSpace :: "char \<Rightarrow> bool" where
  "isWhiteSpace c = (c \<in> set [CHR 0x09, CHR 0x0A, CHR 0x0B, CHR 0x0C, CHR 0x0D, CHR 0x20, CHR 0xA0])"

definition trim :: "string \<Rightarrow> string" where
  "trim s = rev (dropWhile isWhiteSpace (rev (dropWhile isWhiteSpace s)))"

text \<open>
  An object literal is a finite map from property names to values; reading a property
  that is absent gives \<open>undefined\<close>. \<open>o?.k\<close> also gives \<open>undefined\<close> when \<open>o\<close> itself
  is \<open>null\<close> or \<open>undefined\<close>, which is \<open>None\<close> here.
\<close>

type_synonym jsobject = "string \<rightharpoonup> jsvalue"

definition getProp :: "jsobject \<Rightarrow> string \<Rightarrow> jsvalue" where
  "getProp obj k = (case obj k of None \<Rightarrow> Undefined | Some v \<Rightarrow> v)"

definition optprop :: "jsobject option \<Rightarrow> string \<Rightarrow> jsvalue" where
  "optprop obj k = (case obj of None \<Rightarrow> Undefined | Some ob \<Rightarrow> getProp ob k)"

text \<open>
  Arrays. \<open>xs[i]\<close> is \<open>undefined\<close> outside \<open>0 .. length - 1\<close>, also at \<open>-1\<close>.
  \<open>xs[i] = v\<close> at an index past the end extends the array, and the holes it leaves
  read as \<open>undefined\<close>; at a negative index it sets a property and leaves the elements
  and the length alone. \<open>xs.indexOf(h)\<close> is the first index whose element is \<open>===\<close> to
  the string \<open>h\<close>, or \<open>-1\<close>.
\<close>

definition js_get :: "jsvalue list \<Rightarrow> int \<Rightarrow> jsvalue" where
  "js_get xs i = (if 0 \<le> i \<and> nat i < length xs then xs ! nat i else Undefined)"

definition js_set :: "jsvalue list \<Rightarrow> int \<Rightarrow> jsvalue \<Rightarrow> jsvalue list" where
  "js_set xs i v =
     (if i < 0 then xs
      else if nat i < length xs then xs[nat i := v]
      else xs @ replicate (nat i - length xs) Undefined @ [v])"

fun indexOf :: "jsvalue list \<Rightarrow> string \<Rightarrow> int" where
  "indexOf [] h = -1"
| "indexOf (x # xs) h =
     (if x = Str h then 0
      else (let i = indexOf xs h in if i < 0 then -1 else i + 1))"

text \<open>
  \<open>xs.forEach(f)\<close>, with the state the callback changes passed along; an exception
  thrown by the callback ends the loop.
\<close>

fun forEach :: "('a \<Rightarrow> 's \<Rightarrow> 'e + 's) \<Rightarrow> 'a list \<Rightarrow> 's \<Rightarrow> 'e + 's" where
  "forEach f [] s = Inr s"
| "forEach f (x # xs) s = (case f x s of Inl e \<Rightarrow> Inl e | Inr s' \<Rightarrow> forEach f xs s')"

section \<open>User\<close>

record User =
  name :: jsvalue
  email :: jsvalue
  certificateID :: jsvalue

definition newUser :: User where
  "newUser = \<lparr>name = Str [], email = Str [], certificateID = Str []\<rparr>"

definition setName :: "jsvalue \<Rightarrow> User \<Rightarrow> User" where
  "setName v u = u\<lparr>name := v\<rparr>"

definition setEmail :: "jsvalue \<Rightarrow> User \<Rightarrow> User" where
  "setEmail v u = u\<lparr>email := v\<rparr>"

definition setCertificateID :: "jsvalue \<Rightarrow> User \<Rightarrow> User" where
  "setCertificateID v u = u\<lparr>certificateID := v\<rparr>"

definition toJSON :: "User \<Rightarrow> jsobject" where
  "toJSON u = [''name'' \<mapsto> name u, ''email'' \<mapsto> email u, ''certificateID'' \<mapsto> certificateID u]"

definition fromJSON :: "jsobject option \<Rightarrow> User \<Rightarrow> User" where
  "fromJSON jsonObject u =
     u\<lparr>name := optprop jsonObject ''name'',
       email := optprop jsonObject ''email'',
       certificateID := js_or (optprop jsonObject ''certificateID'') (Str [])\<rparr>"

section \<open>The platform services\<close>

text \<open>
  Modelled from the spec: the spreadsheet, drive, presentation and mail services that
  CertificateApp.js calls are services of the hosting platform, not code of this
  repository. Section 6 of the specification lists what each one offers (open a sheet,
  read all rows, write a range; clone, export and trash a file, create a file in a
  folder; replace text in a presentation; send a message; emit a feedback line), and
  the definitions of this section follow it. Their state is a record that every
  operation takes and returns: the spreadsheets, the spreadsheet the script is bound
  to, the files and folders of the drive, and logs of the calls made to the
  presentation editor, of the messages handed to the mail service, of the lines
  written to the console and of the toasts shown.

  A sheet is its cells, addressed by row and column from 1 as \<open>getRange\<close> does, the
  extent of its data range and the number of its columns. \<open>getValues\<close> of a range
  is the list of its rows. \<open>getRange\<close> for a write throws unless the range starts at
  row and column 1 or later and has at least one row and one column; \<open>setValues\<close>
  throws unless the values have the dimensions of the range, and otherwise stores
  them in every cell of the range, a hole of a row as \<open>undefined\<close>, and the data
  range grows to cover the range written.
\<close>

record Sheet =
  cellAt :: "nat \<Rightarrow> nat \<Rightarrow> jsvalue"
  lastRow :: nat
  lastColumn :: nat
  maxColumns :: nat

definition getValues :: "Sheet \<Rightarrow> nat \<Rightarrow> nat \<Rightarrow> nat \<Rightarrow> nat \<Rightarrow> jsvalue list list" where
  "getValues sheet row column numRows numColumns =
     map (\<lambda>i. map (\<lambda>j. cellAt sheet i j) [column..<column + numColumns]) [row..<row + numRows]"

text \<open>\<open>sheet.getDataRange().getValues()\<close>; the data range of an empty sheet is the cell A1.\<close>

definition getDataRangeValues :: "Sheet \<Rightarrow> jsvalue list list" where
  "getDataRangeValues sheet = getValues sheet 1 1 (max 1 (lastRow sheet)) (max 1 (lastColumn sheet))"

record Range =
  rangeRow :: nat
  rangeColumn :: nat
  numRows :: nat
  numColumns :: nat

definition getRange :: "nat \<Rightarrow> nat \<Rightarrow> nat \<Rightarrow> nat \<Rightarrow> error + Range" where
  "getRange row column rows columns =
     (if 1 \<le> row \<and> 1 \<le> column \<and> 1 \<le> rows \<and> 1 \<le> columns
      then Inr \<lparr>rangeRow = row, rangeColumn = column, numRows = rows, numColumns = columns\<rparr>
      else Inl InvalidArgument)"

definition setValues :: "Sheet \<Rightarrow> Range \<Rightarrow> jsvalue list list \<Rightarrow> error + Sheet" where
  "setValues sheet target rows =
     (if length rows = numRows target \<and> list_all (\<lambda>row. length row = numColumns target) rows
      then Inr (sheet\<lparr>cellAt := (\<lambda>i j.
                  if rangeRow target \<le> i \<and> i < rangeRow target + numRows target \<and>
                     rangeColumn target \<le> j \<and> j < rangeColumn target + numColumns target
                  then js_get (rows ! (i - rangeRow target)) (int (j - rangeColumn target))
                  else cellAt sheet i j),
                lastRow := max (lastRow sheet) (rangeRow target + numRows target - 1),
                lastColumn := max (lastColumn sheet) (rangeColumn target + numColumns target - 1)\<rparr>)
      else Inl InvalidArgument)"

record DriveFile =
  fileName :: string
  fileText :: string
  trashed :: bool
  parent :: "string option"

text \<open>The object handed to \<open>MailApp.sendEmail\<close>; an attachment is the id of a file.\<close>

record Message =
  mailName :: jsvalue
  mailTo :: jsvalue
  subject :: jsvalue
  htmlBody :: jsvalue
  attachments :: "string list"

text \<open>A \<open>replaceAllText\<close> request of \<open>Slides.Presentations.batchUpdate\<close>.\<close>

record ReplaceAllText =
  replaceText :: jsvalue
  containsText :: string
  matchCase :: bool

record World =
  spreadsheets :: "string \<rightharpoonup> (string \<rightharpoonup> Sheet)"
  activeSpreadsheet :: "string option"
  driveFiles :: "(string \<times> DriveFile) list"
  driveFolders :: "string list"
  slidesCalls :: "(ReplaceAllText list \<times> string) list"
  sentMail :: "Message list"
  feedback :: "string list"
  toasts :: "string list"

text \<open>
  \<open>SpreadsheetApp.openById(id).getSheetByName(name)\<close>, followed by a method call on
  the result: \<open>openById\<close> throws when there is no such spreadsheet, and
  \<open>getSheetByName\<close> returns \<open>null\<close> when there is no such sheet, on which the
  method call that follows throws a TypeError.
\<close>

definition openSheet :: "World \<Rightarrow> string \<Rightarrow> string \<Rightarrow> error + Sheet" where
  "openSheet w spreadsheetId sheetName' =
     (case spreadsheets w spreadsheetId of
        None \<Rightarrow> Inl NotFound
      | Some book \<Rightarrow> (case book sheetName' of None \<Rightarrow> Inl TypeError | Some sheet \<Rightarrow> Inr sheet))"

definition storeSheet :: "World \<Rightarrow> string \<Rightarrow> string \<Rightarrow> Sheet \<Rightarrow> World" where
  "storeSheet w spreadsheetId sheetName' sheet =
     w\<lparr>spreadsheets := (spreadsheets w)(spreadsheetId \<mapsto>
          (case spreadsheets w spreadsheetId of
             None \<Rightarrow> [sheetName' \<mapsto> sheet]
           | Some book \<Rightarrow> book(sheetName' \<mapsto> sheet)))\<rparr>"

text \<open>
  \<open>showFeedback\<close>: \<open>console.log\<close> writes the line, then
  \<open>SpreadsheetApp.getActive().toast\<close> shows it. \<open>getActive()\<close> is \<open>null\<close> when the
  script is bound to no spreadsheet, and the call of \<open>toast\<close> on it throws a
  TypeError, after the line was written to the console.
\<close>

definition showFeedback :: "string \<Rightarrow> World \<Rightarrow> (error \<times> World) + World" where
  "showFeedback line w =
     (let w1 = w\<lparr>feedback := feedback w @ [line]\<rparr>
      in case activeSpreadsheet w1 of
           None \<Rightarrow> Inl (TypeError, w1)
         | Some active \<Rightarrow> Inr (w1\<lparr>toasts := toasts w1 @ [line]\<rparr>))"

definition MailApp_sendEmail :: "Message \<Rightarrow> World \<Rightarrow> World" where
  "MailApp_sendEmail m w = w\<lparr>sentMail := sentMail w @ [m]\<rparr>"

text \<open>
  The drive. A \<open>File\<close> or \<open>Folder\<close> object is the id it stands for. A new file gets
  an id that no file has and that is not empty: one longer than every id in use.
\<close>

definition getFolderById :: "World \<Rightarrow> string \<Rightarrow> error + string" where
  "getFolderById w folderId = (if folderId \<in> set (driveFolders w) then Inr folderId else Inl NotFound)"

definition getFileById :: "World \<Rightarrow> string \<Rightarrow> error + string" where
  "getFileById w fileId =
     (case map_of (driveFiles w) fileId of None \<Rightarrow> Inl NotFound | Some f \<Rightarrow> Inr fileId)"

definition newId :: "World \<Rightarrow> string" where
  "newId w = replicate (Suc (foldr max (map (\<lambda>kf. length (fst kf)) (driveFiles w)) 0)) (CHR ''x'')"

definition updateFile :: "string \<Rightarrow> (DriveFile \<Rightarrow> DriveFile) \<Rightarrow> World \<Rightarrow> World" where
  "updateFile fileId g w =
     w\<lparr>driveFiles := map (\<lambda>kf. if fst kf = fileId then (fst kf, g (snd kf)) else kf) (driveFiles w)\<rparr>"

definition makeCopy :: "string \<Rightarrow> World \<Rightarrow> error + (World \<times> string)" where
  "makeCopy fileId w =
     (case map_of (driveFiles w) fileId of
        None \<Rightarrow> Inl NotFound
      | Some f \<Rightarrow> Inr (w\<lparr>driveFiles := (newId w, f\<lparr>trashed := False\<rparr>) # driveFiles w\<rparr>, newId w))"

definition moveTo :: "string \<Rightarrow> string \<Rightarrow> World \<Rightarrow> World" where
  "moveTo folderId fileId w = updateFile fileId (\<lambda>f. f\<lparr>parent := Some folderId\<rparr>) w"

definition setFileName :: "string \<Rightarrow> string \<Rightarrow> World \<Rightarrow> World" where
  "setFileName n fileId w = updateFile fileId (\<lambda>f. f\<lparr>fileName := n\<rparr>) w"

definition setTrashed :: "bool \<Rightarrow> string \<Rightarrow> World \<Rightarrow> World" where
  "setTrashed b fileId w = updateFile fileId (\<lambda>f. f\<lparr>trashed := b\<rparr>) w"

text \<open>
  \<open>file.getAs('application/pdf')\<close> is the text of the file as it is then, under the
  file's name; \<open>folder.createFile(blob)\<close> stores it as a new file of that folder.
\<close>

definition getAs :: "string \<Rightarrow> World \<Rightarrow> error + (string \<times> string)" where
  "getAs fileId w =
     (case map_of (driveFiles w) fileId of
        None \<Rightarrow> Inl NotFound
      | Some f \<Rightarrow> Inr (fileName f, fileText f))"

definition createFile :: "string \<Rightarrow> string \<times> string \<Rightarrow> World \<Rightarrow> World \<times> string" where
  "createFile folderId blob w =
     (w\<lparr>driveFiles := (newId w, \<lparr>fileName = fst blob, fileText = snd blob, trashed = False,
                                  parent = Some folderId\<rparr>) # driveFiles w\<rparr>, newId w)"

text \<open>
  Modelled from the spec: what a \<open>replaceAllText\<close> request does to the text of a
  presentation is the work of the presentation editor, which is not in the repository.
  The specification gives it as \<open>batchReplaceText(fileRef, searchText,
  replacementText, caseInsensitive)\<close> and as "replace every case-insensitive match of
  the placeholder token with the configured replacement text": every match of the
  search text, found from the left and not overlapping the one before, is replaced.
  With \<open>matchCase\<close> false the letters A to Z match their small letters. An empty
  search text matches nowhere, and a replacement that is not a string is refused.
\<close>

definition lowerCase :: "char \<Rightarrow> char" where
  "lowerCase c =
     (case map_of (zip ''ABCDEFGHIJKLMNOPQRSTUVWXYZ'' ''abcdefghijklmnopqrstuvwxyz'') c of
        None \<Rightarrow> c
      | Some d \<Rightarrow> d)"

definition matchesAt :: "bool \<Rightarrow> string \<Rightarrow> string \<Rightarrow> bool" where
  "matchesAt mc p t =
     (length p \<le> length t \<and>
      (if mc then take (length p) t = p
       else map lowerCase (take (length p) t) = map lowerCase p))"

fun replaceAll :: "bool \<Rightarrow> string \<Rightarrow> string \<Rightarrow> string \<Rightarrow> string" where
  "replaceAll mc p r [] = []"
| "replaceAll mc p r (c # cs) =
     (if p \<noteq> [] \<and> matchesAt mc p (c # cs) then r @ replaceAll mc p r (drop (length p - 1) cs)
      else c # replaceAll mc p r cs)"

definition applyRequest :: "ReplaceAllText \<Rightarrow> string \<Rightarrow> error + string" where
  "applyRequest request t =
     (case replaceText request of
        Str r \<Rightarrow> Inr (replaceAll (matchCase request) (containsText request) r t)
      | _ \<Rightarrow> Inl InvalidArgument)"

definition batchUpdate :: "ReplaceAllText list \<Rightarrow> string \<Rightarrow> World \<Rightarrow> (error \<times> World) + World" where
  "batchUpdate requests presentationId w =
     (let w1 = w\<lparr>slidesCalls := slidesCalls w @ [(requests, presentationId)]\<rparr>
      in case map_of (driveFiles w) presentationId of
           None \<Rightarrow> Inl (NotFound, w1)
         | Some f \<Rightarrow>
             bindE (thrownIn w1 (forEach applyRequest requests (fileText f))) (\<lambda>t.
               Inr (updateFile presentationId (\<lambda>f. f\<lparr>fileText := t\<rparr>) w1)))"

text \<open>Whether a text occurs in another, exactly or with \<open>matchCase\<close> false.\<close>

fun occursIn :: "bool \<Rightarrow> string \<Rightarrow> string \<Rightarrow> bool" where
  "occursIn mc p [] = matchesAt mc p []"
| "occursIn mc p (c # cs) = (matchesAt mc p (c # cs) \<or> occursIn mc p cs)"

section \<open>The module state and User.sendEmail\<close>

record App =
  BASE_PRESENTATION_ID :: string
  DESTINATION_FOLDER_ID :: string
  PLACEHOLDER :: string

definition newApp :: App where
  "newApp = \<lparr>BASE_PRESENTATION_ID = [], DESTINATION_FOLDER_ID = [], PLACEHOLDER = []\<rparr>"

definition init :: "string \<Rightarrow> string \<Rightarrow> string \<Rightarrow> App \<Rightarrow> App" where
  "init basePresentationID destinationFolderID placeholder app =
     app\<lparr>BASE_PRESENTATION_ID := basePresentationID,
         DESTINATION_FOLDER_ID := destinationFolderID,
         PLACEHOLDER := placeholder\<rparr>"

definition defaultSubject :: string where
  "defaultSubject = ''Certificado de Participa'' @ [CHR 0xE7, CHR 0xE3] @ ''o no Treinamento''"

definition defaultHtmlBody :: "jsvalue \<Rightarrow> string" where
  "defaultHtmlBody n =
     ''<div dir='' @ [CHR 0x22] @ ''ltr'' @ [CHR 0x22] @ ''>Oi '' @ interpolate n @
     ''!<br><br>Agradecemos muito a sua participa'' @ [CHR 0xE7, CHR 0xE3] @
     ''o no nosso treinamento.<br><br>Esperamos que tenha gostado dele!<br><br>Aqui est'' @
     [CHR 0xE1] @ '' o seu certificado de participa'' @ [CHR 0xE7, CHR 0xE3] @ ''o.</div>'' @
     [CHR 0x0D, CHR 0x0A]"

text \<open>
  \<open>DriveApp.getFileById(_certificateID)\<close> on the field of a user, which may hold any
  value: the drive looks up a string and refuses anything else.
\<close>

definition getFileByIdOf :: "World \<Rightarrow> jsvalue \<Rightarrow> error + string" where
  "getFileByIdOf w v = (case v of Str fileId \<Rightarrow> getFileById w fileId | _ \<Rightarrow> Inl InvalidArgument)"

definition sendEmail :: "jsobject option \<Rightarrow> User \<Rightarrow> World \<Rightarrow> (error \<times> World) + World" where
  "sendEmail params u w =
     (if \<not> truthy (certificateID u) then Inr w
      else
        bindE (thrownIn w (getFileByIdOf w (certificateID u))) (\<lambda>attachment.
          showFeedback (''Email to '' @ interpolate (name u) @ '' successfully sent'')
            (MailApp_sendEmail
               \<lparr>mailName = js_or (optprop params ''senderName'') (Str []),
                mailTo = email u,
                subject = js_or (optprop params ''subject'') (Str defaultSubject),
                htmlBody = js_or (optprop params ''htmlBody'') (Str (defaultHtmlBody (name u))),
                attachments = [attachment]\<rparr> w)))"

section \<open>Certificate\<close>

record Certificate =
  placeholderReplacement :: jsvalue
  certificateName :: string
  deletePresentationFlag :: bool
  certificateID_cert :: string

definition newCertificate :: Certificate where
  "newCertificate = \<lparr>placeholderReplacement = Str [], certificateName = [],
                     deletePresentationFlag = False, certificateID_cert = []\<rparr>"

definition setPlaceholderReplacement :: "jsvalue \<Rightarrow> Certificate \<Rightarrow> Certificate" where
  "setPlaceholderReplacement v c = c\<lparr>placeholderReplacement := v\<rparr>"

definition setCertificateName :: "string \<Rightarrow> Certificate \<Rightarrow> Certificate" where
  "setCertificateName n c = c\<lparr>certificateName := n\<rparr>"

definition deletePresentation :: "bool \<Rightarrow> Certificate \<Rightarrow> Certificate" where
  "deletePresentation b c = c\<lparr>deletePresentationFlag := b\<rparr>"

definition getCertificateID :: "Certificate \<Rightarrow> string" where
  "getCertificateID c = certificateID_cert c"

definition createCertificate :: "App \<Rightarrow> Certificate \<Rightarrow> World \<Rightarrow> (error \<times> World) + (World \<times> Certificate)" where
  "createCertificate app c w =
     bindE (thrownIn w (getFolderById w (DESTINATION_FOLDER_ID app))) (\<lambda>destinationFolder.
     bindE (thrownIn w (getFileById w (BASE_PRESENTATION_ID app))) (\<lambda>base.
     bindE (thrownIn w (makeCopy base w)) (\<lambda>(w1, presentationBlob).
       let w2 = setFileName (certificateName c) presentationBlob (moveTo destinationFolder presentationBlob w1);
           presentationBlobID = presentationBlob;
           request = \<lparr>replaceText = placeholderReplacement c,
                      containsText = PLACEHOLDER app,
                      matchCase = False\<rparr>
       in
     bindE (batchUpdate [request] presentationBlobID w2) (\<lambda>w3.
     bindE (thrownIn w3 (getAs presentationBlob w3)) (\<lambda>pdfBlob.
       let (w4, certificate) = createFile destinationFolder pdfBlob w3;
           c' = c\<lparr>certificateID_cert := certificate\<rparr>;
           w5 = setTrashed (deletePresentationFlag c) presentationBlob w4
       in
     bindE (showFeedback (certificateName c @ '' successfully created'') w5) (\<lambda>w6.
       Inr (w6, c')))))))"

section \<open>BatchProcessor\<close>

record BatchProcessor =
  users :: "User list"
  spreadsheetID :: string
  sheetName :: string
  namesColumnHeader :: string
  emailsColumnHeader :: string
  certificatesIDColumnHeader :: string
  deletePresentations :: bool

definition newBatchProcessor :: BatchProcessor where
  "newBatchProcessor = \<lparr>users = [], spreadsheetID = [], sheetName = [], namesColumnHeader = [],
                        emailsColumnHeader = [], certificatesIDColumnHeader = [],
                        deletePresentations = False\<rparr>"

text \<open>
  The callback of \<open>data.forEach\<close> in \<open>getUsersFromSheet\<close>, on the list \<open>_users\<close>:
  a row whose name or email cell is falsy is passed over, the three cells of any
  other row are converted with \<open>toString()\<close> and trimmed.
\<close>

definition loadRow :: "int \<Rightarrow> int \<Rightarrow> int \<Rightarrow> jsvalue list \<Rightarrow> User list \<Rightarrow> error + User list" where
  "loadRow namesColumn emailsColumn certificatesIDColumn row us =
     (if \<not> truthy (js_get row namesColumn) \<or> \<not> truthy (js_get row emailsColumn) then Inr us
      else
        bindE (toString (js_get row namesColumn)) (\<lambda>n.
        bindE (toString (js_get row emailsColumn)) (\<lambda>e.
        bindE (toString (js_get row certificatesIDColumn)) (\<lambda>c.
          Inr (us @ [setCertificateID (Str (trim c))
                       (setEmail (Str (trim e)) (setName (Str (trim n)) newUser))])))))"

definition getUsersFromSheet :: "BatchProcessor \<Rightarrow> World \<Rightarrow> error + BatchProcessor" where
  "getUsersFromSheet bp w =
     bindE (openSheet w (spreadsheetID bp) (sheetName bp)) (\<lambda>sheet.
       case getDataRangeValues sheet of
         [] \<Rightarrow> Inl TypeError
       | headers # data \<Rightarrow>
           (let namesColumn = indexOf headers (namesColumnHeader bp);
                emailsColumn = indexOf headers (emailsColumnHeader bp);
                certificatesIDColumn = indexOf headers (certificatesIDColumnHeader bp)
            in bindE (forEach (loadRow namesColumn emailsColumn certificatesIDColumn) data (users bp))
                 (\<lambda>us. Inr (bp\<lparr>users := us\<rparr>))))"

text \<open>The row that the callback of \<open>_users.forEach\<close> in \<open>saveUsersToSheet\<close> builds.\<close>

definition buildRow :: "int \<Rightarrow> int \<Rightarrow> int \<Rightarrow> User \<Rightarrow> jsvalue list" where
  "buildRow namesColumn emailsColumn certificatesIDColumn u =
     js_set (js_set (js_set [] namesColumn (name u)) emailsColumn (email u))
       certificatesIDColumn (certificateID u)"

definition saveUsersToSheet :: "BatchProcessor \<Rightarrow> World \<Rightarrow> error + World" where
  "saveUsersToSheet bp w =
     bindE (openSheet w (spreadsheetID bp) (sheetName bp)) (\<lambda>sheet.
       case getValues sheet 1 1 1 (maxColumns sheet) of
         [] \<Rightarrow> Inl TypeError
       | headers # _ \<Rightarrow>
           (let namesColumn = indexOf headers (namesColumnHeader bp);
                emailsColumn = indexOf headers (emailsColumnHeader bp);
                certificatesIDColumn = indexOf headers (certificatesIDColumnHeader bp)
            in bindE (forEach (\<lambda>u rows. Inr (rows @ [buildRow namesColumn emailsColumn certificatesIDColumn u]))
                        (users bp) [])
                 (\<lambda>rows. case rows of
                    [] \<Rightarrow> Inl TypeError
                  | row0 # _ \<Rightarrow>
                      bindE (getRange 2 1 (length rows) (length row0)) (\<lambda>target.
                      bindE (setValues sheet target rows) (\<lambda>sheet'.
                        Inr (storeSheet w (spreadsheetID bp) (sheetName bp) sheet'))))))"

text \<open>
  Every throw of \<open>saveUsersToSheet\<close> comes before its one write, so the world at a
  throw is the world it was called in and the error alone is returned.
\<close>

text \<open>
  \<open>createAllCertificates\<close>: the callback changes the user it is given, which is the
  element of \<open>_users\<close> at the index the loop has reached.
\<close>

definition createFor :: "App \<Rightarrow> bool \<Rightarrow> nat \<Rightarrow> World \<times> User list
    \<Rightarrow> (error \<times> World \<times> User list) + (World \<times> User list)" where
  "createFor app del i s =
     (let w = fst s; us = snd s; u = us ! i;
          certificate = deletePresentation del
                          (setPlaceholderReplacement (name u)
                             (setCertificateName (''Certificate: '' @ interpolate (name u)) newCertificate))
      in case createCertificate app certificate w of
           Inl (err, w') \<Rightarrow> Inl (err, w', us)
         | Inr (w', certificate') \<Rightarrow>
             Inr (w', us[i := setCertificateID (Str (getCertificateID certificate')) u]))"

definition createAllCertificates :: "App \<Rightarrow> BatchProcessor \<Rightarrow> World
    \<Rightarrow> (error \<times> World \<times> BatchProcessor) + (World \<times> BatchProcessor)" where
  "createAllCertificates app bp w =
     (case forEach (createFor app (deletePresentations bp)) [0..<length (users bp)] (w, users bp) of
        Inl (err, w', us) \<Rightarrow> Inl (err, w', bp\<lparr>users := us\<rparr>)
      | Inr (w', us) \<Rightarrow> Inr (w', bp\<lparr>users := us\<rparr>))"

definition sendEmails :: "jsobject option \<Rightarrow> BatchProcessor \<Rightarrow> World \<Rightarrow> (error \<times> World) + World" where
  "sendEmails params bp w = forEach (sendEmail params) (users bp) w"

section \<open>Notions of the specification\<close>

text \<open>A value that is a string, as the specification types the fields of a Recipient.\<close>

definition isStr :: "jsvalue \<Rightarrow> bool" where
  "isStr v = (case v of Str s \<Rightarrow> True | _ \<Rightarrow> False)"

text \<open>
  A cell that is empty or absent: the sheet gives the empty string for an empty cell,
  and reading past a row, or at the index \<open>-1\<close> of a header that was not found, gives
  \<open>undefined\<close>. The cells that \<open>getValues\<close> returns are never \<open>undefined\<close> or
  \<open>null\<close>.
\<close>

definition emptyCell :: "jsvalue \<Rightarrow> bool" where
  "emptyCell v = (v = Str [] \<or> v = Undefined \<or> v = Null)"

definition isCell :: "jsvalue \<Rightarrow> bool" where
  "isCell v = (v \<noteq> Undefined \<and> v \<noteq> Null)"

text \<open>The string value of a cell, and the Recipient of a row at three column indices.\<close>

definition stringValue :: "jsvalue \<Rightarrow> string" where
  "stringValue v = (case toString v of Inl e \<Rightarrow> [] | Inr s \<Rightarrow> s)"

definition recipientOfRow :: "int \<Rightarrow> int \<Rightarrow> int \<Rightarrow> jsvalue list \<Rightarrow> User" where
  "recipientOfRow n e c row =
     \<lparr>name = Str (trim (stringValue (js_get row n))),
      email = Str (trim (stringValue (js_get row e))),
      certificateID = Str (trim (stringValue (js_get row c)))\<rparr>"

text \<open>The rows that \<open>getUsersFromSheet\<close> does not pass over.\<close>

definition validRow :: "int \<Rightarrow> int \<Rightarrow> jsvalue list \<Rightarrow> bool" where
  "validRow n e row = (truthy (js_get row n) \<and> truthy (js_get row e))"

text \<open>The text of the artifact that a run of \<open>createCertificate\<close> stored, if it ended well.\<close>

definition artifactText :: "(error \<times> World) + World \<times> Certificate \<Rightarrow> string option" where
  "artifactText result =
     (case result of
        Inl err \<Rightarrow> None
      | Inr (w', c') \<Rightarrow> map_option fileText (map_of (driveFiles w') (getCertificateID c')))"

text \<open>
  \<open>generateAllArtifacts\<close> as the specification words it: for every recipient in list
  order, run a fresh generator configured with the artifact name \<open>"Certificate: "\<close> +
  name, the name as replacement text and the discard flag, and put the reference it
  produced on the recipient; one failure aborts the remaining batch, the recipients
  before it keeping their references and the others left as they were. With it, the
  request and the feedback line that the run for one recipient issues.
\<close>

fun generateAllArtifacts :: "App \<Rightarrow> bool \<Rightarrow> User list \<Rightarrow> World
    \<Rightarrow> (error \<times> World \<times> User list) + World \<times> User list" where
  "generateAllArtifacts app discard [] w = Inr (w, [])"
| "generateAllArtifacts app discard (u # us) w =
     (case createCertificate app
             \<lparr>placeholderReplacement = name u,
              certificateName = ''Certificate: '' @ interpolate (name u),
              deletePresentationFlag = discard,
              certificateID_cert = []\<rparr> w of
        Inl (err, w1) \<Rightarrow> Inl (err, w1, u # us)
      | Inr (w1, generator) \<Rightarrow>
          (case generateAllArtifacts app discard us w1 of
             Inl (err, w2, rest) \<Rightarrow>
               Inl (err, w2, u\<lparr>certificateID := Str (certificateID_cert generator)\<rparr> # rest)
           | Inr (w2, us') \<Rightarrow> Inr (w2, u\<lparr>certificateID := Str (certificateID_cert generator)\<rparr> # us')))"

definition replaceRequestFor :: "App \<Rightarrow> User \<Rightarrow> ReplaceAllText list" where
  "replaceRequestFor app u = [\<lparr>replaceText = name u, containsText = PLACEHOLDER app, matchCase = False\<rparr>]"

definition createdLine :: "User \<Rightarrow> string" where
  "createdLine u = ''Certificate: '' @ interpolate (name u) @ '' successfully created''"

text \<open>
  The message that the specification has \<open>notify\<close> send for a recipient whose
  reference is the id \<open>fileId\<close>: the sender name, the subject and the body of the
  options where they give one, otherwise the empty sender name, the default subject and
  the default body with the recipient's name in it; the file as the only attachment.
  With it, the feedback line of a message sent.
\<close>

definition messageFor :: "jsobject option \<Rightarrow> User \<Rightarrow> string \<Rightarrow> Message" where
  "messageFor params u fileId =
     \<lparr>mailName = (if truthy (optprop params ''senderName'') then optprop params ''senderName'' else Str []),
      mailTo = email u,
      subject = (if truthy (optprop params ''subject'') then optprop params ''subject''
                 else Str defaultSubject),
      htmlBody = (if truthy (optprop params ''htmlBody'') then optprop params ''htmlBody''
                  else Str (defaultHtmlBody (name u))),
      attachments = [fileId]\<rparr>"

definition sentLine :: "User \<Rightarrow> string" where
  "sentLine u = ''Email to '' @ interpolate (name u) @ '' successfully sent''"

text \<open>
  A replacement text that keeps the token out of the result of a replacement: the
  token is not empty, neither its first nor its last character occurs in the
  replacement text in any casing, and the replacement text does not occur in the token
  (the empty text occurs in every token). Without the first two a replacement text can
  hold or complete the token; without the last the text around a match can complete it,
  as \<open>abc\<close> replaced by \<open>b\<close> in \<open>aabcc\<close> gives \<open>abc\<close>.
\<close>

definition keepsTokenOut :: "string \<Rightarrow> string \<Rightarrow> bool" where
  "keepsTokenOut p r =
     (p \<noteq> [] \<and> lowerCase (hd p) \<notin> set (map lowerCase r)
      \<and> lowerCase (last p) \<notin> set (map lowerCase r) \<and> \<not> occursIn False r p)"

section \<open>Example data\<close>

text \<open>
  The sheet whose used range is a given list of rows, a world that holds it as sheet
  \<open>Sheet1\<close> of the spreadsheet \<open>roster\<close>, and a processor set up as in the README.
\<close>

definition sheetOfRows :: "jsvalue list list \<Rightarrow> Sheet" where
  "sheetOfRows rows =
     \<lparr>cellAt = (\<lambda>i j. if 1 \<le> i \<and> i \<le> length rows \<and> 1 \<le> j \<and> j \<le> length (rows ! (i - 1))
                       then rows ! (i - 1) ! (j - 1) else Str []),
      lastRow = length rows,
      lastColumn = foldr max (map length rows) 0,
      maxColumns = 5\<rparr>"

definition worldWith :: "Sheet \<Rightarrow> World" where
  "worldWith sheet =
     \<lparr>spreadsheets = [''roster'' \<mapsto> [''Sheet1'' \<mapsto> sheet]], activeSpreadsheet = Some ''roster'',
      driveFiles = [], driveFolders = [], slidesCalls = [], sentMail = [], feedback = [], toasts = []\<rparr>"

definition exampleProcessor :: BatchProcessor where
  "exampleProcessor =
     \<lparr>users = [], spreadsheetID = ''roster'', sheetName = ''Sheet1'', namesColumnHeader = ''Name'',
      emailsColumnHeader = ''Email'', certificatesIDColumnHeader = ''Certificate ID'',
      deletePresentations = True\<rparr>"

definition rosterSheet :: Sheet where
  "rosterSheet = sheetOfRows
     [[Str ''Name'', Str ''Email'', Str ''Certificate ID''],
      [Str ''  Ana Silva '', Str ''ana@example.org'', Str []],
      [Str ''Bruno Reis'', Str [], Str []],
      [Str ''Carla Dias'', Str ''carla@example.org '', Str '' file7'']]"

definition zeroSheet :: Sheet where
  "zeroSheet = sheetOfRows
     [[Str ''Name'', Str ''Email'', Str ''Certificate ID''],
      [NumZero, Str ''zero@example.org'', Str []]]"

definition noCertificateSheet :: Sheet where
  "noCertificateSheet = sheetOfRows
     [[Str ''Name'', Str ''Email''],
      [Str ''Ana Silva'', Str ''ana@example.org'']]"

definition phoneSheet :: Sheet where
  "phoneSheet = sheetOfRows
     [[Str ''Name'', Str ''Phone'', Str ''Email'', Str ''Certificate ID''],
      [Str ''Ana Silva'', Str ''555-0100'', Str ''ana@example.org'', Str []]]"

definition anaLoaded :: BatchProcessor where
  "anaLoaded = exampleProcessor\<lparr>users :=
     [\<lparr>name = Str ''Ana Silva'', email = Str ''ana@example.org'', certificateID = Str ''file9''\<rparr>]\<rparr>"

text \<open>
  A drive with the template \<open>T\<close> and the folder \<open>F\<close>, in a script bound to the
  spreadsheet \<open>roster\<close>, the module initialised for them with the token
  \<open>{{name}}\<close>, a generator set up for a name, a processor with two users loaded, and
  a drive that holds a certificate.
\<close>

definition templateWorld :: "string \<Rightarrow> World" where
  "templateWorld t =
     \<lparr>spreadsheets = [''roster'' \<mapsto> [''Sheet1'' \<mapsto> rosterSheet]], activeSpreadsheet = Some ''roster'',
      driveFiles = [(''T'', \<lparr>fileName = ''Template'', fileText = t, trashed = False, parent = None\<rparr>)],
      driveFolders = [''F''], slidesCalls = [], sentMail = [], feedback = [], toasts = []\<rparr>"

definition exampleApp :: App where
  "exampleApp = init ''T'' ''F'' ''{{name}}'' newApp"

definition certificateFor :: "string \<Rightarrow> Certificate" where
  "certificateFor n =
     deletePresentation True
       (setPlaceholderReplacement (Str n) (setCertificateName (''Certificate: '' @ n) newCertificate))"

definition twoLoaded :: BatchProcessor where
  "twoLoaded = exampleProcessor\<lparr>users :=
     [\<lparr>name = Str ''Ana Silva'', email = Str ''ana@example.org'', certificateID = Str []\<rparr>,
      \<lparr>name = Str ''Carla Dias'', email = Str ''carla@example.org'', certificateID = Str ''file7''\<rparr>]\<rparr>"

definition mailWorld :: World where
  "mailWorld =
     \<lparr>spreadsheets = [''roster'' \<mapsto> [''Sheet1'' \<mapsto> rosterSheet]], activeSpreadsheet = Some ''roster'',
      driveFiles = [(''file7'', \<lparr>fileName = ''Certificate: Carla Dias'', fileText = ''Awarded to Carla Dias.'',
                                 trashed = False, parent = Some ''F''\<rparr>)],
      driveFolders = [''F''], slidesCalls = [], sentMail = [], feedback = [], toasts = []\<rparr>"

section \<open>Serialization of a User\<close>

text \<open>
  C6, as the specification states it, fails: \<open>fromJSON\<close> replaces every falsy
  \<open>certificateID\<close> by the empty string, so a User whose certificate reference is
  \<open>null\<close> (the data model calls the field nullable) does not come back equal.
\<close>

theorem C6_roundtrip_counterexample:
  "fromJSON (Some (toJSON \<lparr>name = Str ''Ana'', email = Str ''ana@example.org'', certificateID = Null\<rparr>)) newUser
     \<noteq> \<lparr>name = Str ''Ana'', email = Str ''ana@example.org'', certificateID = Null\<rparr>"
  by (simp add: fromJSON_def toJSON_def optprop_def getProp_def js_or_def newUser_def)

text \<open>
  C6, amended: \<open>fromJSON\<close> of \<open>toJSON\<close> of a User gives back that User in all three
  fields exactly when its \<open>certificateID\<close> is the empty string or truthy (any string,
  in particular); and \<open>fromJSON\<close> of an object that has \<open>name\<close> and \<open>email\<close> but
  no \<open>certificateID\<close> key gives those two values and the empty string, not
  \<open>undefined\<close>, as \<open>certificateID\<close>.
\<close>

theorem C6_roundtrip:
  "(fromJSON (Some (toJSON r)) u = r \<longleftrightarrow> truthy (certificateID r) \<or> certificateID r = Str [])
   \<and> (obj ''name'' = Some n \<and> obj ''email'' = Some e \<and> obj ''certificateID'' = None \<longrightarrow>
        fromJSON (Some obj) u = \<lparr>name = n, email = e, certificateID = Str []\<rparr>)"
proof (intro conjI impI)
  show "fromJSON (Some (toJSON r)) u = r \<longleftrightarrow> truthy (certificateID r) \<or> certificateID r = Str []"
    by (cases r; cases u)
       (auto simp add: fromJSON_def toJSON_def optprop_def getProp_def js_or_def)
next
  assume "obj ''name'' = Some n \<and> obj ''email'' = Some e \<and> obj ''certificateID'' = None"
  then show "fromJSON (Some obj) u = \<lparr>name = n, email = e, certificateID = Str []\<rparr>"
    by (cases u) (simp add: fromJSON_def optprop_def getProp_def js_or_def)
qed

text \<open>C6 at a User with a certificate reference, and at an object without the key.\<close>

theorem C6_roundtrip_witness:
  "fromJSON (Some (toJSON \<lparr>name = Str ''Ana'', email = Str ''ana@example.org'', certificateID = Str ''file1''\<rparr>)) newUser
     = \<lparr>name = Str ''Ana'', email = Str ''ana@example.org'', certificateID = Str ''file1''\<rparr>
   \<and> fromJSON (Some [''name'' \<mapsto> Str ''Ana'', ''email'' \<mapsto> Str ''ana@example.org'']) newUser
     = \<lparr>name = Str ''Ana'', email = Str ''ana@example.org'', certificateID = Str []\<rparr>"
  using C6_roundtrip [of "\<lparr>name = Str ''Ana'', email = Str ''ana@example.org'', certificateID = Str ''file1''\<rparr>"
      newUser "[''name'' \<mapsto> Str ''Ana'', ''email'' \<mapsto> Str ''ana@example.org'']"
      "Str ''Ana''" "Str ''ana@example.org''"]
  by simp

text \<open>
  C10, as stated, fails in its last part: \<open>certificateID\<close> is not a string after
  \<open>fromJSON\<close> of every object, since \<open>v || ''\<close> keeps a truthy \<open>v\<close> of any type,
  here the number 42.
\<close>

theorem C10_defaulting_counterexample:
  "\<not> isStr (certificateID (fromJSON (Some [''name'' \<mapsto> Str ''Ana'', ''email'' \<mapsto> Str ''ana@example.org'',
       ''certificateID'' \<mapsto> Num ''42'']) newUser))"
  by (simp add: fromJSON_def optprop_def getProp_def js_or_def isStr_def)

text \<open>
  C10, amended: \<open>fromJSON\<close> of an object without a \<open>name\<close> key, or without an
  \<open>email\<close> key, leaves that field \<open>undefined\<close>, while a missing \<open>certificateID\<close>
  key gives the empty string. So of the three fields only \<open>certificateID\<close> is never
  \<open>undefined\<close> after \<open>fromJSON\<close>, whatever the argument; it is a string whenever
  the object's \<open>certificateID\<close> is a string or is falsy or absent.
\<close>

theorem C10_defaulting:
  "(obj ''name'' = None \<longrightarrow> name (fromJSON (Some obj) u) = Undefined)
   \<and> (obj ''email'' = None \<longrightarrow> email (fromJSON (Some obj) u) = Undefined)
   \<and> (obj ''certificateID'' = None \<longrightarrow> certificateID (fromJSON (Some obj) u) = Str [])
   \<and> certificateID (fromJSON jsonObject u) \<noteq> Undefined
   \<and> (isStr (optprop jsonObject ''certificateID'') \<or> \<not> truthy (optprop jsonObject ''certificateID'')
        \<longrightarrow> isStr (certificateID (fromJSON jsonObject u)))"
proof -
  have cert: "certificateID (fromJSON jo u) = js_or (optprop jo ''certificateID'') (Str [])" for jo
    by (simp add: fromJSON_def)
  have absent: "optprop (Some obj) k = Undefined" if "obj k = None" for k
    using that by (simp add: optprop_def getProp_def)
  have kept: "js_or v (Str []) \<noteq> Undefined" for v
    by (cases v) (simp_all add: js_or_def)
  have string: "isStr (js_or v (Str []))" if "isStr v \<or> \<not> truthy v" for v
    using that by (auto simp add: js_or_def isStr_def)
  have default: "js_or Undefined (Str []) = Str []"
    by (simp add: js_or_def)
  show ?thesis
    unfolding cert
    by (intro conjI impI) (simp_all add: fromJSON_def absent default kept string)
qed

text \<open>C10 at the empty object, and at an object whose \<open>certificateID\<close> is a string.\<close>

theorem C10_defaulting_witness:
  "name (fromJSON (Some Map.empty) newUser) = Undefined
   \<and> email (fromJSON (Some Map.empty) newUser) = Undefined
   \<and> certificateID (fromJSON (Some Map.empty) newUser) = Str []
   \<and> isStr (certificateID (fromJSON (Some [''certificateID'' \<mapsto> Str ''file1'']) newUser))"
  using C10_defaulting [of Map.empty newUser "Some [''certificateID'' \<mapsto> Str ''file1'']"]
  by (simp add: optprop_def getProp_def isStr_def)

section \<open>Loading the roster\<close>

lemma indexOf_ge: "- 1 \<le> indexOf xs h"
  by (induction xs) (auto simp add: Let_def)

lemma indexOf_notin: "Str h \<notin> set xs \<Longrightarrow> indexOf xs h = - 1"
  by (induction xs) (auto simp add: Let_def)

lemma indexOf_in:
  "Str h \<in> set xs \<Longrightarrow> 0 \<le> indexOf xs h \<and> nat (indexOf xs h) < length xs \<and> xs ! nat (indexOf xs h) = Str h"
proof (induction xs)
  case Nil
  then show ?case by simp
next
  case (Cons x xs)
  show ?case
  proof (cases "x = Str h")
    case True
    then show ?thesis by simp
  next
    case False
    with Cons.prems have "Str h \<in> set xs" by simp
    from Cons.IH [OF this] False show ?thesis
      by (simp add: Let_def nat_add_distrib)
  qed
qed

lemma toString_isCell: "isCell v \<Longrightarrow> toString v = Inr (stringValue v)"
  by (cases v) (simp_all add: isCell_def stringValue_def)

lemma truthy_isCell: "truthy v \<Longrightarrow> isCell v"
  by (cases v) (simp_all add: isCell_def)

lemma loadRow_skip: "\<not> validRow n e row \<Longrightarrow> loadRow n e c row us = Inr us"
  by (auto simp add: loadRow_def validRow_def)

lemma loadRow_valid:
  assumes "validRow n e row" and "isCell (js_get row c)"
  shows "loadRow n e c row us = Inr (us @ [recipientOfRow n e c row])"
  using assms
  by (simp add: loadRow_def validRow_def bindE_def toString_isCell truthy_isCell
      recipientOfRow_def setName_def setEmail_def setCertificateID_def newUser_def)

lemma loadRow_undefined:
  assumes "validRow n e row" and "js_get row c = Undefined"
  shows "loadRow n e c row us = Inl TypeError"
  using assms
  by (simp add: loadRow_def validRow_def bindE_def toString_isCell truthy_isCell)

lemma forEach_loadRow:
  assumes "\<forall>row \<in> set data. validRow n e row \<longrightarrow> isCell (js_get row c)"
  shows "forEach (loadRow n e c) data us = Inr (us @ map (recipientOfRow n e c) (filter (validRow n e) data))"
  using assms
proof (induction data arbitrary: us)
  case Nil
  then show ?case by simp
next
  case (Cons row data)
  show ?case
  proof (cases "validRow n e row")
    case True
    with Cons.prems have "isCell (js_get row c)" by simp
    with True Cons show ?thesis by (simp add: loadRow_valid)
  next
    case False
    with Cons show ?thesis by (simp add: loadRow_skip)
  qed
qed

lemma forEach_loadRow_missing:
  "forEach (loadRow n e (- 1)) data us =
     (if \<exists>row \<in> set data. validRow n e row then Inl TypeError else Inr us)"
proof (induction data arbitrary: us)
  case Nil
  then show ?case by simp
next
  case (Cons row data)
  have undef: "js_get row (- 1) = Undefined" by (simp add: js_get_def)
  show ?case
  proof (cases "validRow n e row")
    case True
    then show ?thesis by (simp add: loadRow_undefined [OF True undef])
  next
    case False
    with Cons show ?thesis by (simp add: loadRow_skip)
  qed
qed

lemma loadRow_append:
  "loadRow n e c row us = bindE (loadRow n e c row []) (\<lambda>new. Inr (us @ new))"
  by (simp add: loadRow_def bindE_def split: sum.splits)

lemma forEach_loadRow_append:
  "forEach (loadRow n e c) data us = bindE (forEach (loadRow n e c) data []) (\<lambda>new. Inr (us @ new))"
proof (induction data arbitrary: us)
  case Nil
  then show ?case by (simp add: bindE_def)
next
  case (Cons row data)
  show ?case
  proof (cases "loadRow n e c row []")
    case (Inl err)
    then show ?thesis
      by (simp add: loadRow_append [of n e c row us] bindE_def)
  next
    case (Inr new1)
    have here: "loadRow n e c row us = Inr (us @ new1)"
      by (simp add: loadRow_append [of n e c row us] Inr bindE_def)
    have "forEach (loadRow n e c) (row # data) us = forEach (loadRow n e c) data (us @ new1)"
      by (simp add: here)
    also have "\<dots> = bindE (forEach (loadRow n e c) data []) (\<lambda>new. Inr ((us @ new1) @ new))"
      by (rule Cons.IH)
    also have "\<dots> = bindE (forEach (loadRow n e c) data new1) (\<lambda>new. Inr (us @ new))"
      by (simp add: Cons.IH [of new1] bindE_def split: sum.splits)
    also have "\<dots> = bindE (forEach (loadRow n e c) (row # data) []) (\<lambda>new. Inr (us @ new))"
      by (simp add: Inr)
    finally show ?thesis .
  qed
qed

lemma getValues_length: "row \<in> set (getValues sheet r c nr nc) \<Longrightarrow> length row = nc"
  by (auto simp add: getValues_def)

lemma rosterSheet_values:
  "getDataRangeValues rosterSheet =
     [[Str ''Name'', Str ''Email'', Str ''Certificate ID''],
      [Str ''  Ana Silva '', Str ''ana@example.org'', Str []],
      [Str ''Bruno Reis'', Str [], Str []],
      [Str ''Carla Dias'', Str ''carla@example.org '', Str '' file7'']]"
  by (simp add: getDataRangeValues_def getValues_def rosterSheet_def sheetOfRows_def upt_rec)

lemma zeroSheet_values:
  "getDataRangeValues zeroSheet =
     [[Str ''Name'', Str ''Email'', Str ''Certificate ID''],
      [NumZero, Str ''zero@example.org'', Str []]]"
  by (simp add: getDataRangeValues_def getValues_def zeroSheet_def sheetOfRows_def upt_rec)

lemma noCertificateSheet_values:
  "getDataRangeValues noCertificateSheet =
     [[Str ''Name'', Str ''Email''], [Str ''Ana Silva'', Str ''ana@example.org'']]"
  by (simp add: getDataRangeValues_def getValues_def noCertificateSheet_def sheetOfRows_def upt_rec)

lemma openSheet_worldWith:
  "openSheet (worldWith sheet) (spreadsheetID exampleProcessor) (sheetName exampleProcessor) = Inr sheet"
  by (simp add: openSheet_def worldWith_def exampleProcessor_def)

text \<open>
  C1, as the specification states it, fails: a row whose name cell holds the number 0
  has a name cell and an email cell that are not empty, and \<open>getUsersFromSheet\<close>
  passes it over, because \<open>!row[namesColumn]\<close> is true of every falsy value.
\<close>

theorem C1_load_counterexample:
  "\<not> emptyCell NumZero \<and> \<not> emptyCell (Str ''zero@example.org'')
   \<and> getDataRangeValues zeroSheet =
       [[Str ''Name'', Str ''Email'', Str ''Certificate ID''], [NumZero, Str ''zero@example.org'', Str []]]
   \<and> getUsersFromSheet exampleProcessor (worldWith zeroSheet) = Inr exampleProcessor"
  by (simp add: emptyCell_def zeroSheet_values getUsersFromSheet_def openSheet_def worldWith_def
      bindE_def exampleProcessor_def loadRow_def js_get_def)

text \<open>
  C1, amended: when the sheet has the certificate header (so that all three columns
  are resolved) and its cells are values as \<open>getValues\<close> returns them,
  \<open>getUsersFromSheet\<close> appends one Recipient for every row after the
  header row whose name cell and email cell are both truthy, in row order, with the
  trimmed string values of the three columns; a row whose name or email cell is
  falsy (the empty string, 0, NaN, false) or absent contributes none.
\<close>

theorem C1_load:
  assumes sheet: "openSheet w (spreadsheetID bp) (sheetName bp) = Inr sheet"
    and vals: "getDataRangeValues sheet = headers # data"
    and cells: "\<forall>row \<in> set data. \<forall>v \<in> set row. isCell v"
    and found: "Str (certificatesIDColumnHeader bp) \<in> set headers"
    and n: "n = indexOf headers (namesColumnHeader bp)"
    and e: "e = indexOf headers (emailsColumnHeader bp)"
    and c: "c = indexOf headers (certificatesIDColumnHeader bp)"
  shows "getUsersFromSheet bp w =
           Inr (bp\<lparr>users := users bp @ map (recipientOfRow n e c) (filter (validRow n e) data)\<rparr>)"
proof -
  have width: "length row = length headers" if "row \<in> set data" for row
  proof -
    have "row \<in> set (getDataRangeValues sheet)" "headers \<in> set (getDataRangeValues sheet)"
      using that by (simp_all add: vals)
    then show ?thesis
      unfolding getDataRangeValues_def by (simp add: getValues_length)
  qed
  from indexOf_in [OF found] have c_range: "0 \<le> c" "nat c < length headers"
    by (simp_all add: c)
  have "isCell (js_get row c)" if "row \<in> set data" for row
  proof -
    have "js_get row c = row ! nat c" "nat c < length row"
      using c_range width [OF that] by (simp_all add: js_get_def)
    then have "js_get row c \<in> set row" by simp
    with cells that show ?thesis by blast
  qed
  then have "forEach (loadRow n e c) data (users bp)
               = Inr (users bp @ map (recipientOfRow n e c) (filter (validRow n e) data))"
    by (intro forEach_loadRow) simp
  then show ?thesis
    by (simp add: getUsersFromSheet_def sheet vals bindE_def Let_def n e c)
qed

text \<open>C1 at a roster of two valid rows and one row without an email.\<close>

theorem C1_load_witness:
  "getUsersFromSheet exampleProcessor (worldWith rosterSheet) =
     Inr (exampleProcessor\<lparr>users :=
       [\<lparr>name = Str ''Ana Silva'', email = Str ''ana@example.org'', certificateID = Str []\<rparr>,
        \<lparr>name = Str ''Carla Dias'', email = Str ''carla@example.org'', certificateID = Str ''file7''\<rparr>]\<rparr>)"
  using C1_load [OF openSheet_worldWith rosterSheet_values, of 0 1 2]
  by (simp add: isCell_def exampleProcessor_def validRow_def recipientOfRow_def js_get_def
      stringValue_def trim_def isWhiteSpace_def)

text \<open>
  C4 names a case the code does not handle: when the certificate header is not in
  the header row its index is \<open>-1\<close>, \<open>row[-1]\<close> is \<open>undefined\<close>, and
  \<open>undefined.toString()\<close> throws. \<open>getUsersFromSheet\<close> then ends in a TypeError at
  the first row whose name and email are truthy, and loads nothing.
\<close>

theorem C4_missing_header:
  assumes sheet: "openSheet w (spreadsheetID bp) (sheetName bp) = Inr sheet"
    and vals: "getDataRangeValues sheet = headers # data"
    and missing: "Str (certificatesIDColumnHeader bp) \<notin> set headers"
    and row: "row \<in> set data"
    and valid: "truthy (js_get row (indexOf headers (namesColumnHeader bp)))"
               "truthy (js_get row (indexOf headers (emailsColumnHeader bp)))"
  shows "getUsersFromSheet bp w = Inl TypeError"
proof -
  have "validRow (indexOf headers (namesColumnHeader bp)) (indexOf headers (emailsColumnHeader bp)) row"
    using valid by (simp add: validRow_def)
  with row have "forEach (loadRow (indexOf headers (namesColumnHeader bp))
        (indexOf headers (emailsColumnHeader bp)) (- 1)) data (users bp) = Inl TypeError"
    by (auto simp add: forEach_loadRow_missing)
  then show ?thesis
    by (simp add: getUsersFromSheet_def sheet vals bindE_def Let_def indexOf_notin [OF missing])
qed

text \<open>C4 at a sheet with the columns Name and Email only, and one row.\<close>

theorem C4_missing_header_witness:
  "getUsersFromSheet exampleProcessor (worldWith noCertificateSheet) = Inl TypeError"
  using C4_missing_header [OF openSheet_worldWith noCertificateSheet_values, of "[Str ''Ana Silva'', Str ''ana@example.org'']"]
  by (simp add: exampleProcessor_def js_get_def)

text \<open>
  C8: \<open>getUsersFromSheet\<close> accumulates. Whatever \<open>_users\<close> holds before the call,
  the call ends as it does from the empty list, and the list after it is the list
  before it followed by the recipients read; the list is never reset.
\<close>

theorem C8_accumulate:
  "getUsersFromSheet bp w =
     (case getUsersFromSheet (bp\<lparr>users := []\<rparr>) w of
        Inl err \<Rightarrow> Inl err
      | Inr loaded \<Rightarrow> Inr (bp\<lparr>users := users bp @ users loaded\<rparr>))"
proof (cases "openSheet w (spreadsheetID bp) (sheetName bp)")
  case (Inl err)
  then show ?thesis by (simp add: getUsersFromSheet_def bindE_def)
next
  case (Inr sheet)
  show ?thesis
  proof (cases "getDataRangeValues sheet")
    case Nil
    with Inr show ?thesis by (simp add: getUsersFromSheet_def bindE_def)
  next
    case (Cons headers data)
    with Inr show ?thesis
      by (simp add: getUsersFromSheet_def Let_def
          forEach_loadRow_append [of _ _ _ data "users bp"] bindE_def split: sum.splits)
  qed
qed

text \<open>C8 at a processor that already holds one user.\<close>

theorem C8_accumulate_witness:
  "getUsersFromSheet
     (exampleProcessor\<lparr>users := [\<lparr>name = Str ''Davi Luz'', email = Str ''davi@example.org'', certificateID = Str ''file3''\<rparr>]\<rparr>)
     (worldWith rosterSheet) =
     Inr (exampleProcessor\<lparr>users :=
       [\<lparr>name = Str ''Davi Luz'', email = Str ''davi@example.org'', certificateID = Str ''file3''\<rparr>,
        \<lparr>name = Str ''Ana Silva'', email = Str ''ana@example.org'', certificateID = Str []\<rparr>,
        \<lparr>name = Str ''Carla Dias'', email = Str ''carla@example.org'', certificateID = Str ''file7''\<rparr>]\<rparr>)"
  using C8_accumulate [of "exampleProcessor\<lparr>users := [\<lparr>name = Str ''Davi Luz'', email = Str ''davi@example.org'', certificateID = Str ''file3''\<rparr>]\<rparr>"
      "worldWith rosterSheet"]
  by (simp add: getUsersFromSheet_def openSheet_def worldWith_def exampleProcessor_def rosterSheet_values
      bindE_def loadRow_def js_get_def trim_def isWhiteSpace_def
      setName_def setEmail_def setCertificateID_def newUser_def)

section \<open>Saving the roster\<close>

lemma forEach_collect:
  "forEach (\<lambda>u rows. Inr (rows @ [f u])) us acc = Inr (acc @ map f us)"
  by (induction us arbitrary: acc) simp_all

lemma length_js_set:
  "length (js_set xs i v) = (if i < 0 then length xs else max (length xs) (nat i + 1))"
  by (auto simp add: js_set_def)

lemma js_get_js_set:
  "js_get (js_set xs i v) j = (if 0 \<le> i \<and> j = i then v else js_get xs j)"
proof (cases "i < 0")
  case True
  then show ?thesis by (simp add: js_set_def)
next
  case False
  show ?thesis
  proof (cases "nat i < length xs")
    case True
    with False show ?thesis
      by (auto simp add: js_set_def js_get_def)
  next
    case past: False
    with False show ?thesis
      by (auto simp add: js_set_def js_get_def nth_append)
  qed
qed

lemma length_buildRow:
  assumes "- 1 \<le> n" "- 1 \<le> e" "- 1 \<le> c"
  shows "length (buildRow n e c u) = nat (max n (max e c) + 1)"
  using assms by (auto simp add: buildRow_def length_js_set)

lemma js_get_buildRow:
  "js_get (buildRow n e c u) j =
     (if 0 \<le> c \<and> j = c then certificateID u
      else if 0 \<le> e \<and> j = e then email u
      else if 0 \<le> n \<and> j = n then name u
      else Undefined)"
  by (simp add: buildRow_def js_get_js_set) (simp add: js_get_def)

lemma getValues_one_row: "\<exists>headers. getValues sheet 1 1 1 k = [headers]"
  by (simp add: getValues_def)

lemma setValues_ok:
  assumes "length rows = rs" and "list_all (\<lambda>row. length row = cs) rows"
  shows "setValues sheet \<lparr>rangeRow = r, rangeColumn = c, numRows = rs, numColumns = cs\<rparr> rows =
     Inr (sheet\<lparr>cellAt := (\<lambda>i j. if r \<le> i \<and> i < r + rs \<and> c \<le> j \<and> j < c + cs
                                  then js_get (rows ! (i - r)) (int (j - c))
                                  else cellAt sheet i j),
               lastRow := max (lastRow sheet) (r + rs - 1),
               lastColumn := max (lastColumn sheet) (c + cs - 1)\<rparr>)"
  using assms by (simp add: setValues_def cong: if_cong)

lemma openSheet_storeSheet:
  assumes "openSheet w s t = Inr sheet"
  shows "openSheet (storeSheet w s t sheet') s' t' =
     (if s' = s \<and> t' = t then Inr sheet' else openSheet w s' t')"
  using assms
  by (auto simp add: openSheet_def storeSheet_def split: option.splits)

text \<open>
  C9: with at least one user, every row that \<open>saveUsersToSheet\<close> builds holds the
  user's name, email and certificate id at the three column indices and a hole at
  every other position, and has the width of the largest index plus one. When a
  header was found the call returns, and in the world it returns the sheet holds, in
  the rows 2 to 1 + the number of users and the columns 1 to that width, the three
  values at their columns and \<open>undefined\<close> at every other column, whatever the sheet
  held there; the cells outside that range, the other sheets and the rest of the world
  are as they were. When no header was found the width is 0, \<open>getRange\<close> refuses the
  range and nothing is written.
\<close>

theorem C9_written_range:
  assumes sheet: "openSheet w (spreadsheetID bp) (sheetName bp) = Inr sheet"
    and hdr: "getValues sheet 1 1 1 (maxColumns sheet) = [headers]"
    and n: "n = indexOf headers (namesColumnHeader bp)"
    and e: "e = indexOf headers (emailsColumnHeader bp)"
    and c: "c = indexOf headers (certificatesIDColumnHeader bp)"
    and width: "width = nat (max n (max e c) + 1)"
    and some: "users bp \<noteq> []"
  shows "(\<forall>u \<in> set (users bp). length (buildRow n e c u) = width
            \<and> (\<forall>j. js_get (buildRow n e c u) j =
                   (if 0 \<le> c \<and> j = c then certificateID u
                    else if 0 \<le> e \<and> j = e then email u
                    else if 0 \<le> n \<and> j = n then name u
                    else Undefined)))
     \<and> (width = 0 \<longrightarrow> saveUsersToSheet bp w = Inl InvalidArgument)
     \<and> (0 < width \<longrightarrow>
          (\<exists>w' sheet'. saveUsersToSheet bp w = Inr w'
             \<and> openSheet w' (spreadsheetID bp) (sheetName bp) = Inr sheet'
             \<and> (\<forall>i j. i < length (users bp) \<and> j < width \<longrightarrow>
                   cellAt sheet' (2 + i) (1 + j) =
                     (if int j = c then certificateID (users bp ! i)
                      else if int j = e then email (users bp ! i)
                      else if int j = n then name (users bp ! i)
                      else Undefined))
             \<and> (\<forall>i j. \<not> (2 \<le> i \<and> i < 2 + length (users bp) \<and> 1 \<le> j \<and> j < 1 + width) \<longrightarrow>
                   cellAt sheet' i j = cellAt sheet i j)
             \<and> (\<forall>s t. \<not> (s = spreadsheetID bp \<and> t = sheetName bp) \<longrightarrow>
                   openSheet w' s t = openSheet w s t)
             \<and> driveFiles w' = driveFiles w \<and> slidesCalls w' = slidesCalls w
             \<and> sentMail w' = sentMail w \<and> feedback w' = feedback w))"
proof (intro conjI impI)
  have ge: "- 1 \<le> n" "- 1 \<le> e" "- 1 \<le> c"
    by (simp_all add: n e c indexOf_ge)
  show rows: "\<forall>u \<in> set (users bp). length (buildRow n e c u) = width
            \<and> (\<forall>j. js_get (buildRow n e c u) j =
                   (if 0 \<le> c \<and> j = c then certificateID u
                    else if 0 \<le> e \<and> j = e then email u
                    else if 0 \<le> n \<and> j = n then name u
                    else Undefined))"
    by (simp add: width length_buildRow [OF ge] js_get_buildRow)
  obtain u us where us: "users bp = u # us"
    using some by (cases "users bp") auto
  have first: "length (buildRow n e c u) = width"
    using rows us by simp
  have hdr': "getValues sheet (Suc 0) (Suc 0) (Suc 0) (maxColumns sheet) = [headers]"
    using hdr by simp
  have call: "saveUsersToSheet bp w =
      bindE (getRange 2 1 (length (users bp)) width) (\<lambda>target.
      bindE (setValues sheet target (map (buildRow n e c) (users bp))) (\<lambda>sheet'.
        Inr (storeSheet w (spreadsheetID bp) (sheetName bp) sheet')))"
    unfolding first [symmetric]
    by (simp add: saveUsersToSheet_def sheet hdr' bindE_def Let_def forEach_collect us n e c)
  {
    assume "width = 0"
    then show "saveUsersToSheet bp w = Inl InvalidArgument"
      by (simp add: call getRange_def bindE_def)
  }
  assume wide: "0 < width"
  define sheet' where
    "sheet' = sheet\<lparr>cellAt := (\<lambda>i j. if 2 \<le> i \<and> i < 2 + length (users bp) \<and> 1 \<le> j \<and> j < 1 + width
                                  then js_get (map (buildRow n e c) (users bp) ! (i - 2)) (int (j - 1))
                                  else cellAt sheet i j),
               lastRow := max (lastRow sheet) (2 + length (users bp) - 1),
               lastColumn := max (lastColumn sheet) (1 + width - 1)\<rparr>"
  have uniform: "list_all (\<lambda>row. length row = width) (map (buildRow n e c) (users bp))"
    using rows by (simp add: list_all_iff)
  have written: "setValues sheet \<lparr>rangeRow = 2, rangeColumn = 1, numRows = length (users bp), numColumns = width\<rparr>
      (map (buildRow n e c) (users bp)) = Inr sheet'"
    unfolding sheet'_def by (rule setValues_ok) (simp_all add: uniform)
  have many: "Suc 0 \<le> length (users bp)"
    by (simp add: us)
  have ranged: "getRange 2 1 (length (users bp)) width =
      Inr \<lparr>rangeRow = 2, rangeColumn = 1, numRows = length (users bp), numColumns = width\<rparr>"
    using wide many by (simp add: getRange_def)
  have saved: "saveUsersToSheet bp w = Inr (storeSheet w (spreadsheetID bp) (sheetName bp) sheet')"
    unfolding call ranged by (simp only: bindE_def sum.case written)
  show "\<exists>w' sheet'. saveUsersToSheet bp w = Inr w'
             \<and> openSheet w' (spreadsheetID bp) (sheetName bp) = Inr sheet'
             \<and> (\<forall>i j. i < length (users bp) \<and> j < width \<longrightarrow>
                   cellAt sheet' (2 + i) (1 + j) =
                     (if int j = c then certificateID (users bp ! i)
                      else if int j = e then email (users bp ! i)
                      else if int j = n then name (users bp ! i)
                      else Undefined))
             \<and> (\<forall>i j. \<not> (2 \<le> i \<and> i < 2 + length (users bp) \<and> 1 \<le> j \<and> j < 1 + width) \<longrightarrow>
                   cellAt sheet' i j = cellAt sheet i j)
             \<and> (\<forall>s t. \<not> (s = spreadsheetID bp \<and> t = sheetName bp) \<longrightarrow>
                   openSheet w' s t = openSheet w s t)
             \<and> driveFiles w' = driveFiles w \<and> slidesCalls w' = slidesCalls w
             \<and> sentMail w' = sentMail w \<and> feedback w' = feedback w"
  proof (intro exI conjI)
    show "saveUsersToSheet bp w = Inr (storeSheet w (spreadsheetID bp) (sheetName bp) sheet')"
      by (rule saved)
    show "openSheet (storeSheet w (spreadsheetID bp) (sheetName bp) sheet') (spreadsheetID bp) (sheetName bp)
        = Inr sheet'"
      by (simp add: openSheet_storeSheet [OF sheet])
    show "\<forall>i j. i < length (users bp) \<and> j < width \<longrightarrow>
                   cellAt sheet' (2 + i) (1 + j) =
                     (if int j = c then certificateID (users bp ! i)
                      else if int j = e then email (users bp ! i)
                      else if int j = n then name (users bp ! i)
                      else Undefined)"
      by (auto simp add: sheet'_def js_get_buildRow)
    show "\<forall>i j. \<not> (2 \<le> i \<and> i < 2 + length (users bp) \<and> 1 \<le> j \<and> j < 1 + width) \<longrightarrow>
                   cellAt sheet' i j = cellAt sheet i j"
      by (auto simp add: sheet'_def)
    show "\<forall>s t. \<not> (s = spreadsheetID bp \<and> t = sheetName bp) \<longrightarrow>
        openSheet (storeSheet w (spreadsheetID bp) (sheetName bp) sheet') s t = openSheet w s t"
      by (simp add: openSheet_storeSheet [OF sheet])
  qed (simp_all add: storeSheet_def)
qed

text \<open>
  C9 at a sheet with a Phone column between Name and Email: the phone is overwritten
  in the sheet of the world returned. And at a processor none of whose headers is in
  the sheet: the range has no column and the call throws.
\<close>

theorem C9_written_range_witness:
  "cellAt phoneSheet 2 2 = Str ''555-0100''
   \<and> (\<exists>w' sheet'. saveUsersToSheet anaLoaded (worldWith phoneSheet) = Inr w'
         \<and> openSheet w' ''roster'' ''Sheet1'' = Inr sheet'
         \<and> cellAt sheet' 2 1 = Str ''Ana Silva''
         \<and> cellAt sheet' 2 2 = Undefined
         \<and> cellAt sheet' 2 3 = Str ''ana@example.org''
         \<and> cellAt sheet' 2 4 = Str ''file9''
         \<and> cellAt sheet' 1 2 = Str ''Phone'')
   \<and> saveUsersToSheet
        (anaLoaded\<lparr>namesColumnHeader := ''Nome'', emailsColumnHeader := ''Correio'',
                    certificatesIDColumnHeader := ''Certificado''\<rparr>)
        (worldWith phoneSheet) = Inl InvalidArgument"
proof (intro conjI)
  show "cellAt phoneSheet 2 2 = Str ''555-0100''"
    by (simp add: phoneSheet_def sheetOfRows_def)
next
  have sheet: "openSheet (worldWith phoneSheet) (spreadsheetID anaLoaded) (sheetName anaLoaded) = Inr phoneSheet"
    by (simp add: openSheet_def worldWith_def anaLoaded_def exampleProcessor_def)
  have hdr: "getValues phoneSheet 1 1 1 (maxColumns phoneSheet) =
      [[Str ''Name'', Str ''Phone'', Str ''Email'', Str ''Certificate ID'', Str []]]"
    by (simp add: getValues_def phoneSheet_def sheetOfRows_def upt_rec)
  have some: "users anaLoaded \<noteq> []"
    by (simp add: anaLoaded_def)
  have cols: "0 = indexOf [Str ''Name'', Str ''Phone'', Str ''Email'', Str ''Certificate ID'', Str []]
                 (namesColumnHeader anaLoaded)"
    "2 = indexOf [Str ''Name'', Str ''Phone'', Str ''Email'', Str ''Certificate ID'', Str []]
                 (emailsColumnHeader anaLoaded)"
    "3 = indexOf [Str ''Name'', Str ''Phone'', Str ''Email'', Str ''Certificate ID'', Str []]
                 (certificatesIDColumnHeader anaLoaded)"
    by (simp_all add: anaLoaded_def exampleProcessor_def)
  have width: "(4::nat) = nat (max 0 (max 2 3) + 1)"
    by simp
  note inst = C9_written_range [OF sheet hdr cols width some, THEN conjunct2, THEN conjunct2, rule_format]
  from inst obtain w' sheet' where
    saved: "saveUsersToSheet anaLoaded (worldWith phoneSheet) = Inr w'"
    and opened: "openSheet w' (spreadsheetID anaLoaded) (sheetName anaLoaded) = Inr sheet'"
    and inside: "\<And>i j. i < length (users anaLoaded) \<and> j < 4 \<Longrightarrow>
        cellAt sheet' (2 + i) (1 + j) =
          (if int j = 3 then certificateID (users anaLoaded ! i)
           else if int j = 2 then email (users anaLoaded ! i)
           else if int j = 0 then name (users anaLoaded ! i)
           else Undefined)"
    and outside: "\<And>i j. \<not> (2 \<le> i \<and> i < 2 + length (users anaLoaded) \<and> 1 \<le> j \<and> j < 1 + 4) \<Longrightarrow>
        cellAt sheet' i j = cellAt phoneSheet i j"
    by auto
  have c1: "cellAt sheet' 2 1 = Str ''Ana Silva''"
    using inside [of 0 0] by (simp add: anaLoaded_def)
  have c2: "cellAt sheet' 2 2 = Undefined"
    using inside [of 0 1] by (simp add: anaLoaded_def numeral_2_eq_2)
  have c3: "cellAt sheet' 2 3 = Str ''ana@example.org''"
    using inside [of 0 2] by (simp add: anaLoaded_def numeral_3_eq_3)
  have c4: "cellAt sheet' 2 4 = Str ''file9''"
    using inside [of 0 3] by (simp add: anaLoaded_def)
  have c5: "cellAt sheet' 1 2 = Str ''Phone''"
    using outside [of 1 2] by (simp add: phoneSheet_def sheetOfRows_def)
  have names: "spreadsheetID anaLoaded = ''roster''" "sheetName anaLoaded = ''Sheet1''"
    by (simp_all add: anaLoaded_def exampleProcessor_def)
  show "\<exists>w' sheet'. saveUsersToSheet anaLoaded (worldWith phoneSheet) = Inr w'
         \<and> openSheet w' ''roster'' ''Sheet1'' = Inr sheet'
         \<and> cellAt sheet' 2 1 = Str ''Ana Silva''
         \<and> cellAt sheet' 2 2 = Undefined
         \<and> cellAt sheet' 2 3 = Str ''ana@example.org''
         \<and> cellAt sheet' 2 4 = Str ''file9''
         \<and> cellAt sheet' 1 2 = Str ''Phone''"
    by (intro exI conjI) (rule saved, rule opened [unfolded names], rule c1, rule c2, rule c3, rule c4, rule c5)
next
  define other where
    "other = anaLoaded\<lparr>namesColumnHeader := ''Nome'', emailsColumnHeader := ''Correio'',
                    certificatesIDColumnHeader := ''Certificado''\<rparr>"
  have sheet: "openSheet (worldWith phoneSheet) (spreadsheetID other) (sheetName other) = Inr phoneSheet"
    by (simp add: other_def openSheet_def worldWith_def anaLoaded_def exampleProcessor_def)
  have hdr: "getValues phoneSheet 1 1 1 (maxColumns phoneSheet) =
      [[Str ''Name'', Str ''Phone'', Str ''Email'', Str ''Certificate ID'', Str []]]"
    by (simp add: getValues_def phoneSheet_def sheetOfRows_def upt_rec)
  have some: "users other \<noteq> []"
    by (simp add: other_def anaLoaded_def)
  have cols: "- 1 = indexOf [Str ''Name'', Str ''Phone'', Str ''Email'', Str ''Certificate ID'', Str []]
                 (namesColumnHeader other)"
    "- 1 = indexOf [Str ''Name'', Str ''Phone'', Str ''Email'', Str ''Certificate ID'', Str []]
                 (emailsColumnHeader other)"
    "- 1 = indexOf [Str ''Name'', Str ''Phone'', Str ''Email'', Str ''Certificate ID'', Str []]
                 (certificatesIDColumnHeader other)"
    by (simp_all add: other_def)
  have width: "(0::nat) = nat (max (- 1) (max (- 1) (- 1)) + 1)"
    by simp
  from C9_written_range [OF sheet hdr cols width some, THEN conjunct2, THEN conjunct1]
  show "saveUsersToSheet
        (anaLoaded\<lparr>namesColumnHeader := ''Nome'', emailsColumnHeader := ''Correio'',
                    certificatesIDColumnHeader := ''Certificado''\<rparr>)
        (worldWith phoneSheet) = Inl InvalidArgument"
    by (simp add: other_def)
qed

text \<open>
  C5: with no user loaded, \<open>createAllCertificates\<close> and \<open>sendEmails\<close> return and
  leave the world as it is. \<open>saveUsersToSheet\<close> does not: it writes nothing, but
  \<open>rows[0].length\<close> on the empty list of rows throws a TypeError.
\<close>

theorem C5_empty_list:
  "createAllCertificates app (bp\<lparr>users := []\<rparr>) w = Inr (w, bp\<lparr>users := []\<rparr>)
   \<and> sendEmails params (bp\<lparr>users := []\<rparr>) w = Inr w
   \<and> saveUsersToSheet (bp\<lparr>users := []\<rparr>) w =
       (case openSheet w (spreadsheetID bp) (sheetName bp) of
          Inl err \<Rightarrow> Inl err
        | Inr sheet \<Rightarrow> Inl TypeError)"
proof (intro conjI)
  show "createAllCertificates app (bp\<lparr>users := []\<rparr>) w = Inr (w, bp\<lparr>users := []\<rparr>)"
    by (simp add: createAllCertificates_def bindE_def)
  show "sendEmails params (bp\<lparr>users := []\<rparr>) w = Inr w"
    by (simp add: sendEmails_def)
  show "saveUsersToSheet (bp\<lparr>users := []\<rparr>) w =
       (case openSheet w (spreadsheetID bp) (sheetName bp) of
          Inl err \<Rightarrow> Inl err
        | Inr sheet \<Rightarrow> Inl TypeError)"
  proof (cases "openSheet w (spreadsheetID bp) (sheetName bp)")
    case (Inl err)
    then show ?thesis by (simp add: saveUsersToSheet_def bindE_def)
  next
    case (Inr sheet)
    obtain headers where "getValues sheet 1 1 1 (maxColumns sheet) = [headers]"
      using getValues_one_row by blast
    with Inr show ?thesis
      by (simp add: saveUsersToSheet_def bindE_def Let_def)
  qed
qed

text \<open>C5 for \<open>saveUsersToSheet\<close> at the processor of the README before any load.\<close>

theorem C5_empty_list_witness:
  "saveUsersToSheet exampleProcessor (worldWith rosterSheet) = Inl TypeError"
  using C5_empty_list [of newApp exampleProcessor "worldWith rosterSheet" None]
  by (simp add: exampleProcessor_def openSheet_def worldWith_def)

section \<open>Sending a certificate\<close>

text \<open>
  C7, as the specification states it, fails on a reference that is not empty and that
  the drive does not resolve, as a roster cell that reads \<open>pending\<close> gives one:
  \<open>DriveApp.getFileById\<close> throws and no message is sent.
\<close>

theorem C7_send_email_counterexample:
  "truthy (Str ''pending'')
   \<and> sendEmail None \<lparr>name = Str ''Ana Silva'', email = Str ''ana@example.org'', certificateID = Str ''pending''\<rparr>
       mailWorld = Inl (NotFound, mailWorld)
   \<and> sentMail mailWorld = []"
  by (simp add: sendEmail_def getFileByIdOf_def getFileById_def mailWorld_def bindE_def thrownIn_def)

text \<open>
  C7, amended: \<open>sendEmail\<close> on a User whose \<open>certificateID\<close> is empty (falsy) sends
  nothing and returns, whatever \<open>params\<close> is. On a User whose \<open>certificateID\<close> is not
  empty and which the drive does not resolve, a string that is the id of no file in
  particular, it throws the error of the drive and sends nothing. On a User whose
  \<open>certificateID\<close> is the id of a file of the drive it hands exactly one message to
  the mail service, with that file as the only attachment; the subject, the body and
  the sender name are those of \<open>params\<close> where it gives one (a truthy value), and
  otherwise the default subject, the default body with the user's name in it, and the
  empty sender name. After the message is sent and its feedback line written, the call
  returns when the script is bound to a spreadsheet, and throws a TypeError from
  \<open>showFeedback\<close> when it is bound to none.
\<close>

theorem C7_send_email:
  "(\<not> truthy (certificateID u) \<longrightarrow> sendEmail params u w = Inr w)
   \<and> (truthy (certificateID u) \<and> getFileByIdOf w (certificateID u) = Inl err \<longrightarrow>
        sendEmail params u w = Inl (err, w))
   \<and> (certificateID u = Str fileId \<and> fileId \<noteq> [] \<and> map_of (driveFiles w) fileId = None \<longrightarrow>
        sendEmail params u w = Inl (NotFound, w))
   \<and> (certificateID u = Str fileId \<and> fileId \<noteq> [] \<and> map_of (driveFiles w) fileId = Some f \<longrightarrow>
        sendEmail params u w =
          (case activeSpreadsheet w of
             None \<Rightarrow>
               Inl (TypeError, w\<lparr>sentMail := sentMail w @ [messageFor params u fileId],
                                 feedback := feedback w @ [sentLine u]\<rparr>)
           | Some active \<Rightarrow>
               Inr (w\<lparr>sentMail := sentMail w @ [messageFor params u fileId],
                      feedback := feedback w @ [sentLine u],
                      toasts := toasts w @ [sentLine u]\<rparr>)))"
proof (intro conjI impI)
  assume "\<not> truthy (certificateID u)"
  then show "sendEmail params u w = Inr w"
    by (simp add: sendEmail_def)
next
  assume "truthy (certificateID u) \<and> getFileByIdOf w (certificateID u) = Inl err"
  then show "sendEmail params u w = Inl (err, w)"
    by (simp add: sendEmail_def bindE_def thrownIn_def)
next
  assume "certificateID u = Str fileId \<and> fileId \<noteq> [] \<and> map_of (driveFiles w) fileId = None"
  then show "sendEmail params u w = Inl (NotFound, w)"
    by (simp add: sendEmail_def getFileByIdOf_def getFileById_def bindE_def thrownIn_def)
next
  assume sent: "certificateID u = Str fileId \<and> fileId \<noteq> [] \<and> map_of (driveFiles w) fileId = Some f"
  then have found: "getFileByIdOf w (Str fileId) = Inr fileId"
    by (simp add: getFileByIdOf_def getFileById_def)
  have message: "\<lparr>mailName = js_or (optprop params ''senderName'') (Str []),
       mailTo = email u,
       subject = js_or (optprop params ''subject'') (Str defaultSubject),
       htmlBody = js_or (optprop params ''htmlBody'') (Str (defaultHtmlBody (name u))),
       attachments = [fileId]\<rparr> = messageFor params u fileId"
    by (simp add: messageFor_def js_or_def)
  have "sendEmail params u w =
      showFeedback (sentLine u) (MailApp_sendEmail (messageFor params u fileId) w)"
    using sent by (simp add: sendEmail_def found bindE_def thrownIn_def message sentLine_def)
  then show "sendEmail params u w =
          (case activeSpreadsheet w of
             None \<Rightarrow>
               Inl (TypeError, w\<lparr>sentMail := sentMail w @ [messageFor params u fileId],
                                 feedback := feedback w @ [sentLine u]\<rparr>)
           | Some active \<Rightarrow>
               Inr (w\<lparr>sentMail := sentMail w @ [messageFor params u fileId],
                      feedback := feedback w @ [sentLine u],
                      toasts := toasts w @ [sentLine u]\<rparr>))"
    by (simp add: showFeedback_def MailApp_sendEmail_def Let_def split: option.splits)
qed

text \<open>
  C7 at a User without a certificate, at one whose reference is a number, and at one
  with a certificate, with a subject given in a bound script and without options in
  an unbound one.
\<close>

theorem C7_send_email_witness:
  "sendEmail None \<lparr>name = Str ''Ana Silva'', email = Str ''ana@example.org'', certificateID = Str []\<rparr> mailWorld
     = Inr mailWorld
   \<and> sendEmail None \<lparr>name = Str ''Ana Silva'', email = Str ''ana@example.org'', certificateID = Num ''7''\<rparr>
       mailWorld = Inl (InvalidArgument, mailWorld)
   \<and> sendEmail (Some [''subject'' \<mapsto> Str ''Your certificate'', ''htmlBody'' \<mapsto> Str []])
       \<lparr>name = Str ''Carla Dias'', email = Str ''carla@example.org'', certificateID = Str ''file7''\<rparr> mailWorld
     = Inr (mailWorld\<lparr>sentMail :=
              [\<lparr>mailName = Str [], mailTo = Str ''carla@example.org'', subject = Str ''Your certificate'',
                htmlBody = Str (defaultHtmlBody (Str ''Carla Dias'')), attachments = [''file7'']\<rparr>],
            feedback := [''Email to Carla Dias successfully sent''],
            toasts := [''Email to Carla Dias successfully sent'']\<rparr>)
   \<and> sendEmail None
       \<lparr>name = Str ''Carla Dias'', email = Str ''carla@example.org'', certificateID = Str ''file7''\<rparr>
       (mailWorld\<lparr>activeSpreadsheet := None\<rparr>)
     = Inl (TypeError, mailWorld\<lparr>activeSpreadsheet := None, sentMail :=
              [\<lparr>mailName = Str [], mailTo = Str ''carla@example.org'', subject = Str defaultSubject,
                htmlBody = Str (defaultHtmlBody (Str ''Carla Dias'')), attachments = [''file7'']\<rparr>],
            feedback := [''Email to Carla Dias successfully sent'']\<rparr>)"
  using C7_send_email [of "\<lparr>name = Str ''Ana Silva'', email = Str ''ana@example.org'', certificateID = Str []\<rparr>"
      None mailWorld]
    C7_send_email [of "\<lparr>name = Str ''Ana Silva'', email = Str ''ana@example.org'', certificateID = Num ''7''\<rparr>"
      None mailWorld InvalidArgument]
    C7_send_email [of "\<lparr>name = Str ''Carla Dias'', email = Str ''carla@example.org'', certificateID = Str ''file7''\<rparr>"
      "Some [''subject'' \<mapsto> Str ''Your certificate'', ''htmlBody'' \<mapsto> Str []]" mailWorld _ "''file7''"
      "\<lparr>fileName = ''Certificate: Carla Dias'', fileText = ''Awarded to Carla Dias.'', trashed = False, parent = Some ''F''\<rparr>"]
    C7_send_email [of "\<lparr>name = Str ''Carla Dias'', email = Str ''carla@example.org'', certificateID = Str ''file7''\<rparr>"
      None "mailWorld\<lparr>activeSpreadsheet := None\<rparr>" _ "''file7''"
      "\<lparr>fileName = ''Certificate: Carla Dias'', fileText = ''Awarded to Carla Dias.'', trashed = False, parent = Some ''F''\<rparr>"]
  by (simp add: mailWorld_def optprop_def getProp_def messageFor_def sentLine_def getFileByIdOf_def)

section \<open>Creating a certificate\<close>

lemma key_length_le:
  "(k, f) \<in> set fs \<Longrightarrow> length k \<le> foldr max (map (\<lambda>kf. length (fst kf)) fs) 0"
  by (induction fs) auto

lemma newId_fresh: "map_of (driveFiles w) (newId w) = None"
proof (rule ccontr)
  assume "map_of (driveFiles w) (newId w) \<noteq> None"
  then obtain f where "(newId w, f) \<in> set (driveFiles w)"
    by (auto dest: map_of_SomeD)
  from key_length_le [OF this] show False
    by (simp add: newId_def)
qed

lemma newId_nonempty: "newId w \<noteq> []"
  by (simp add: newId_def)

lemma update_absent:
  "map_of fs k = None \<Longrightarrow> map (\<lambda>kf. if fst kf = k then (fst kf, g (snd kf)) else kf) fs = fs"
  by (induction fs) (auto split: if_splits)

lemma createCertificate_result:
  assumes folder: "DESTINATION_FOLDER_ID app \<in> set (driveFolders w)"
    and template: "map_of (driveFiles w) (BASE_PRESENTATION_ID app) = Some f"
    and replacement: "placeholderReplacement c = Str r"
    and t: "t = replaceAll False (PLACEHOLDER app) r (fileText f)"
    and clone: "clone = \<lparr>fileName = certificateName c, fileText = t, trashed = deletePresentationFlag c,
                          parent = Some (DESTINATION_FOLDER_ID app)\<rparr>"
    and artifact: "artifact = \<lparr>fileName = certificateName c, fileText = t, trashed = False,
                                parent = Some (DESTINATION_FOLDER_ID app)\<rparr>"
    and i2: "i2 = newId (w\<lparr>driveFiles := (newId w, clone) # driveFiles w\<rparr>)"
    and stored: "stored = w\<lparr>driveFiles := (i2, artifact) # (newId w, clone) # driveFiles w,
           slidesCalls := slidesCalls w @
             [([\<lparr>replaceText = Str r, containsText = PLACEHOLDER app, matchCase = False\<rparr>], newId w)],
           feedback := feedback w @ [certificateName c @ '' successfully created'']\<rparr>"
  shows "createCertificate app c w =
    (case activeSpreadsheet w of
       None \<Rightarrow> Inl (TypeError, stored)
     | Some active \<Rightarrow>
         Inr (stored\<lparr>toasts := toasts w @ [certificateName c @ '' successfully created'']\<rparr>,
              c\<lparr>certificateID_cert := i2\<rparr>))"
proof -
  define i1 where "i1 = newId w"
  define fs where "fs = driveFiles w"
  define dest where "dest = DESTINATION_FOLDER_ID app"
  define request where
    "request = \<lparr>replaceText = Str r, containsText = PLACEHOLDER app, matchCase = False\<rparr>"
  have fresh1: "map_of fs i1 = None"
    unfolding fs_def i1_def by (rule newId_fresh)
  define w1 where "w1 = w\<lparr>driveFiles := (i1, f\<lparr>trashed := False\<rparr>) # fs\<rparr>"
  have s1: "makeCopy (BASE_PRESENTATION_ID app) w = Inr (w1, i1)"
    by (simp add: makeCopy_def template w1_def i1_def fs_def)
  define w2 where
    "w2 = w\<lparr>driveFiles := (i1, f\<lparr>fileName := certificateName c, trashed := False, parent := Some dest\<rparr>) # fs\<rparr>"
  have s2: "setFileName (certificateName c) i1 (moveTo dest i1 w1) = w2"
    by (simp add: setFileName_def moveTo_def w1_def w2_def updateFile_def update_absent [OF fresh1])
  define w3 where
    "w3 = w\<lparr>driveFiles := (i1, f\<lparr>fileName := certificateName c, fileText := t, trashed := False,
                                   parent := Some dest\<rparr>) # fs,
             slidesCalls := slidesCalls w @ [([request], i1)]\<rparr>"
  have s3: "batchUpdate [request] i1 w2 = Inr w3"
    by (simp add: batchUpdate_def w2_def w3_def applyRequest_def request_def bindE_def thrownIn_def t
        updateFile_def update_absent [OF fresh1] Let_def)
  have s4: "getAs i1 w3 = Inr (certificateName c, t)"
    by (simp add: getAs_def w3_def)
  have keys: "newId w3 = i2"
    by (simp add: newId_def w3_def i2 fs_def i1_def)
  have fresh2: "i2 \<noteq> i1" "map_of fs i2 = None"
    using newId_fresh [of w3] unfolding keys by (auto simp add: w3_def split: if_splits)
  define w4 where "w4 = w3\<lparr>driveFiles := (i2, artifact) # driveFiles w3\<rparr>"
  have s5: "createFile dest (certificateName c, t) w3 = (w4, i2)"
    by (simp add: createFile_def keys w4_def artifact dest_def)
  define w5 where
    "w5 = w\<lparr>driveFiles := (i2, artifact) # (i1, clone) # fs,
             slidesCalls := slidesCalls w @ [([request], i1)]\<rparr>"
  have s6: "setTrashed (deletePresentationFlag c) i1 w4 = w5"
    using fresh2
    by (simp add: setTrashed_def w4_def w3_def w5_def updateFile_def update_absent [OF fresh1] clone
        dest_def artifact)
  have s7: "showFeedback (certificateName c @ '' successfully created'') w5 =
    (case activeSpreadsheet w of
       None \<Rightarrow> Inl (TypeError, stored)
     | Some active \<Rightarrow>
         Inr (stored\<lparr>toasts := toasts w @ [certificateName c @ '' successfully created'']\<rparr>))"
    by (simp add: showFeedback_def w5_def stored Let_def i1_def fs_def request_def split: option.splits)
  note steps = s1 s2 s3 s4 s5 s6
  have "createCertificate app c w =
      bindE (showFeedback (certificateName c @ '' successfully created'') w5)
        (\<lambda>w6. Inr (w6, c\<lparr>certificateID_cert := i2\<rparr>))"
    unfolding createCertificate_def
    by (simp add: getFolderById_def folder getFileById_def template bindE_def thrownIn_def Let_def
        replacement steps [unfolded i1_def fs_def dest_def request_def])
  then show ?thesis
    by (simp add: s7 bindE_def split: option.splits)
qed

lemma createCertificate_ok:
  assumes folder: "DESTINATION_FOLDER_ID app \<in> set (driveFolders w)"
    and template: "map_of (driveFiles w) (BASE_PRESENTATION_ID app) = Some f"
    and replacement: "placeholderReplacement c = Str r"
  obtains stored artifactId where
    "createCertificate app c w =
       (case activeSpreadsheet w of
          None \<Rightarrow> Inl (TypeError, stored)
        | Some active \<Rightarrow>
            Inr (stored\<lparr>toasts := toasts w @ [certificateName c @ '' successfully created'']\<rparr>,
                 c\<lparr>certificateID_cert := artifactId\<rparr>))"
    "artifactId \<noteq> []"
    "map_of (driveFiles stored) artifactId =
       Some \<lparr>fileName = certificateName c,
             fileText = replaceAll False (PLACEHOLDER app) r (fileText f),
             trashed = False, parent = Some (DESTINATION_FOLDER_ID app)\<rparr>"
    "map_of (driveFiles stored) (newId w) =
       Some \<lparr>fileName = certificateName c,
             fileText = replaceAll False (PLACEHOLDER app) r (fileText f),
             trashed = deletePresentationFlag c, parent = Some (DESTINATION_FOLDER_ID app)\<rparr>"
    "map_of (driveFiles stored) (BASE_PRESENTATION_ID app) = Some f"
    "driveFolders stored = driveFolders w"
    "slidesCalls stored = slidesCalls w @
       [([\<lparr>replaceText = Str r, containsText = PLACEHOLDER app, matchCase = False\<rparr>], newId w)]"
    "feedback stored = feedback w @ [certificateName c @ '' successfully created'']"
    "sentMail stored = sentMail w"
    "spreadsheets stored = spreadsheets w"
    "activeSpreadsheet stored = activeSpreadsheet w"
    "toasts stored = toasts w"
proof -
  define t where "t = replaceAll False (PLACEHOLDER app) r (fileText f)"
  define clone where
    "clone = \<lparr>fileName = certificateName c, fileText = t, trashed = deletePresentationFlag c,
               parent = Some (DESTINATION_FOLDER_ID app)\<rparr>"
  define artifact where
    "artifact = \<lparr>fileName = certificateName c, fileText = t, trashed = False,
                  parent = Some (DESTINATION_FOLDER_ID app)\<rparr>"
  define i2 where "i2 = newId (w\<lparr>driveFiles := (newId w, clone) # driveFiles w\<rparr>)"
  define stored where
    "stored = w\<lparr>driveFiles := (i2, artifact) # (newId w, clone) # driveFiles w,
            slidesCalls := slidesCalls w @
              [([\<lparr>replaceText = Str r, containsText = PLACEHOLDER app, matchCase = False\<rparr>], newId w)],
            feedback := feedback w @ [certificateName c @ '' successfully created'']\<rparr>"
  note result = createCertificate_result [OF folder template replacement t_def clone_def artifact_def
      i2_def stored_def]
  have fresh1: "newId w \<noteq> BASE_PRESENTATION_ID app"
    using newId_fresh [of w] template by auto
  have fresh2: "i2 \<noteq> newId w" "i2 \<noteq> BASE_PRESENTATION_ID app"
    using newId_fresh [of "w\<lparr>driveFiles := (newId w, clone) # driveFiles w\<rparr>"] template
    unfolding i2_def [symmetric] by (auto split: if_splits)
  have nonempty: "i2 \<noteq> []"
    unfolding i2_def by (rule newId_nonempty)
  show thesis
  proof (rule that [of stored i2])
    show "createCertificate app c w =
       (case activeSpreadsheet w of
          None \<Rightarrow> Inl (TypeError, stored)
        | Some active \<Rightarrow>
            Inr (stored\<lparr>toasts := toasts w @ [certificateName c @ '' successfully created'']\<rparr>,
                 c\<lparr>certificateID_cert := i2\<rparr>))"
      by (rule result)
    show "i2 \<noteq> []" by (rule nonempty)
    show "map_of (driveFiles stored) i2 =
       Some \<lparr>fileName = certificateName c,
             fileText = replaceAll False (PLACEHOLDER app) r (fileText f),
             trashed = False, parent = Some (DESTINATION_FOLDER_ID app)\<rparr>"
      by (simp add: stored_def artifact_def t_def)
    show "map_of (driveFiles stored) (newId w) =
       Some \<lparr>fileName = certificateName c,
             fileText = replaceAll False (PLACEHOLDER app) r (fileText f),
             trashed = deletePresentationFlag c, parent = Some (DESTINATION_FOLDER_ID app)\<rparr>"
      using fresh2 by (simp add: stored_def clone_def t_def)
    show "map_of (driveFiles stored) (BASE_PRESENTATION_ID app) = Some f"
      using fresh1 fresh2 by (simp add: stored_def template)
  qed (simp_all add: stored_def)
qed

lemma matchesAt_occursIn: "matchesAt mc p t \<Longrightarrow> occursIn mc p t"
  by (cases t) simp_all

lemma occursIn_append_left: "occursIn True r (r @ x)"
  by (rule matchesAt_occursIn) (simp add: matchesAt_def)

lemma replaceAll_contains:
  assumes "p \<noteq> []" and "occursIn mc p t"
  shows "occursIn True r (replaceAll mc p r t)"
  using assms
proof (induction mc p r t rule: replaceAll.induct)
  case (1 mc p r)
  then show ?case by (simp add: matchesAt_def)
next
  case (2 mc p r c cs)
  show ?case
  proof (cases "matchesAt mc p (c # cs)")
    case True
    with "2.prems" show ?thesis
      by (simp add: occursIn_append_left)
  next
    case False
    with "2.prems" have "occursIn mc p cs" by simp
    with "2.IH"(2) "2.prems" False have "occursIn True r (replaceAll mc p r cs)" by simp
    with False show ?thesis by simp
  qed
qed

lemma matchesAt_exact: "matchesAt True p x \<longleftrightarrow> (\<exists>v. x = p @ v)"
proof
  assume "matchesAt True p x"
  then have "take (length p) x = p" by (simp add: matchesAt_def)
  then have "x = p @ drop (length p) x" by (metis append_take_drop_id)
  then show "\<exists>v. x = p @ v" ..
next
  assume "\<exists>v. x = p @ v"
  then show "matchesAt True p x" by (auto simp add: matchesAt_def)
qed

lemma occursIn_exact: "occursIn True p x \<longleftrightarrow> (\<exists>u v. x = u @ p @ v)"
proof (induction x)
  case Nil
  then show ?case by (simp add: matchesAt_exact)
next
  case (Cons c cs)
  show ?case
  proof
    assume "occursIn True p (c # cs)"
    then consider "matchesAt True p (c # cs)" | "occursIn True p cs" by auto
    then show "\<exists>u v. c # cs = u @ p @ v"
    proof cases
      case 1
      then obtain v where "c # cs = [] @ p @ v" by (auto simp add: matchesAt_exact)
      then show ?thesis by blast
    next
      case 2
      with Cons.IH obtain u v where "cs = u @ p @ v" by blast
      then have "c # cs = (c # u) @ p @ v" by simp
      then show ?thesis by blast
    qed
  next
    assume "\<exists>u v. c # cs = u @ p @ v"
    then obtain u v where uv: "c # cs = u @ p @ v" by blast
    show "occursIn True p (c # cs)"
    proof (cases u)
      case Nil
      with uv have "matchesAt True p (c # cs)" by (simp add: matchesAt_exact)
      then show ?thesis by simp
    next
      case (Cons d u')
      with uv have "cs = u' @ p @ v" by simp
      with Cons.IH show ?thesis by auto
    qed
  qed
qed

lemma matchesAt_lower:
  "matchesAt False p x = matchesAt True (map lowerCase p) (map lowerCase x)"
  by (simp add: matchesAt_def take_map)

lemma occursIn_lower:
  "occursIn False p x = occursIn True (map lowerCase p) (map lowerCase x)"
  by (induction x) (simp_all add: matchesAt_lower)

lemma replaceAll_empty: "replaceAll mc [] r t = t"
  by (induction t) simp_all

lemma replaceAll_lower:
  "map lowerCase (replaceAll False p r t) =
     replaceAll True (map lowerCase p) (map lowerCase r) (map lowerCase t)"
proof (induction t rule: length_induct)
  case (1 t)
  show ?case
  proof (cases t)
    case Nil
    then show ?thesis by simp
  next
    case (Cons c cs)
    have shorter: "length (drop (length p - 1) cs) < length t" "length cs < length t"
      by (simp_all add: Cons)
    show ?thesis
    proof (cases "p = []")
      case True
      then show ?thesis by (simp add: replaceAll_empty)
    next
      case False
      then show ?thesis
        using "1.IH" [rule_format, OF shorter(1)] "1.IH" [rule_format, OF shorter(2)]
        by (simp add: Cons matchesAt_lower [of p "c # cs", simplified] drop_map)
    qed
  qed
qed

lemma exact_no_token:
  assumes p: "p \<noteq> []" and first: "hd p \<notin> set r" and lst: "last p \<notin> set r"
    and inner: "\<not> occursIn True r p"
    and pending: "\<forall>k < length seg. \<not> matchesAt True p (drop k (seg @ t))"
  shows "\<not> occursIn True p (seg @ replaceAll True p r t)"
  using pending
proof (induction t arbitrary: seg rule: length_induct)
  case (1 t)
  have within: False if "seg = u @ p @ ws" for u ws
  proof -
    have "length u < length seg" using that p by (cases p) auto
    moreover have "matchesAt True p (drop (length u) (seg @ t))"
      by (simp add: that matchesAt_exact)
    ultimately show False using "1.prems" by blast
  qed
  show ?case
  proof (cases t)
    case Nil
    show ?thesis
    proof
      assume "occursIn True p (seg @ replaceAll True p r t)"
      then obtain u v where "seg = u @ p @ v" by (auto simp add: Nil occursIn_exact)
      then show False by (rule within)
    qed
  next
    case (Cons c cs)
    show ?thesis
    proof (cases "matchesAt True p (c # cs)")
      case False
      have "\<forall>k < length (seg @ [c]). \<not> matchesAt True p (drop k ((seg @ [c]) @ cs))"
      proof (intro allI impI)
        fix k assume "k < length (seg @ [c])"
        then consider "k < length seg" | "k = length seg" by fastforce
        then show "\<not> matchesAt True p (drop k ((seg @ [c]) @ cs))"
        proof cases
          case 1
          with "1.prems" show ?thesis by (simp add: Cons)
        next
          case 2
          with False show ?thesis by simp
        qed
      qed
      with "1.IH" [rule_format, of cs "seg @ [c]"]
      have "\<not> occursIn True p ((seg @ [c]) @ replaceAll True p r cs)"
        by (simp add: Cons)
      with False show ?thesis by (simp add: Cons)
    next
      case True
      define rest where "rest = replaceAll True p r (drop (length p - 1) cs)"
      have out: "seg @ replaceAll True p r t = seg @ r @ rest"
        using True p by (simp add: Cons rest_def)
      have "\<not> occursIn True p ([] @ rest)"
        unfolding rest_def
        by (rule "1.IH" [rule_format]) (simp_all add: Cons)
      then have clean: "rest \<noteq> u @ p @ v" for u v
        by (auto simp add: occursIn_exact)
      have r: "r \<noteq> []"
        using inner by (cases p) (auto simp add: matchesAt_def)
      obtain a p' where ap: "p = a # p'" using p by (cases p) auto
      show ?thesis
      proof
        assume "occursIn True p (seg @ replaceAll True p r t)"
        then obtain u v where uv: "seg @ r @ rest = u @ p @ v"
          by (auto simp add: out occursIn_exact)
        from append_eq_append_conv2 [THEN iffD1, OF this] consider
            (A) us where "seg = u @ us" "us @ r @ rest = p @ v"
          | (B) us where "seg @ us = u" "r @ rest = us @ p @ v"
          by blast
        then show False
        proof cases
          case B
          from append_eq_append_conv2 [THEN iffD1, OF B(2)] consider
            (B1) us' where "r = us @ us'" "us' @ rest = p @ v"
          | (B2) us' where "r @ us' = us" "rest = us' @ p @ v"
            by blast
          then show False
          proof cases
            case B1
            show False
            proof (cases us')
              case Nil
              with B1(2) have "rest = [] @ p @ v" by simp
              with clean show False by blast
            next
              case (Cons b bs)
              with B1(2) ap have "b = a" by simp
              with Cons B1(1) have "a \<in> set r" by simp
              with first ap show False by simp
            qed
          next
            case B2
            with clean show False by blast
          qed
        next
          case A
          from append_eq_append_conv2 [THEN iffD1, OF A(2)] consider
            (A1) ws where "us = p @ ws"
          | (A2) ws where "us @ ws = p" "r @ rest = ws @ v"
            by blast
          then show False
          proof cases
            case A1
            with A(1) have "seg = u @ p @ ws" by simp
            then show False by (rule within)
          next
            case A2
            from append_eq_append_conv2 [THEN iffD1, OF A2(2)] consider
              (A2a) ws' where "r = ws @ ws'"
            | (A2b) ws' where "r @ ws' = ws"
              by blast
            then show False
            proof cases
              case A2a
              show False
              proof (cases "ws = []")
                case True
                with A2(1) A(1) have "seg = u @ p @ []" by simp
                then show False by (rule within)
              next
                case False
                with A2(1) have "last p = last ws" by auto
                moreover have "last ws \<in> set r"
                  using False A2a by simp
                ultimately show False using lst by simp
              qed
            next
              case A2b
              with A2(1) have "p = us @ r @ ws'" by simp
              then have "occursIn True r p" by (auto simp add: occursIn_exact)
              with inner show False by simp
            qed
          qed
        qed
      qed
    qed
  qed
qed

lemma no_token_remains:
  assumes "keepsTokenOut p r"
  shows "\<not> occursIn False p (replaceAll False p r t)"
proof -
  have p: "map lowerCase p \<noteq> []"
    and first: "hd (map lowerCase p) \<notin> set (map lowerCase r)"
    and lst: "last (map lowerCase p) \<notin> set (map lowerCase r)"
    and inner: "\<not> occursIn True (map lowerCase r) (map lowerCase p)"
    using assms by (simp_all add: keepsTokenOut_def hd_map last_map occursIn_lower)
  have "\<not> occursIn True (map lowerCase p)
           ([] @ replaceAll True (map lowerCase p) (map lowerCase r) (map lowerCase t))"
    by (rule exact_no_token [OF p first lst inner]) simp
  then show ?thesis
    by (simp add: occursIn_lower replaceAll_lower)
qed

text \<open>
  C3, as the specification states it, fails in what it concludes from the request.
  A template in which the token does not occur gives an artifact without the
  replacement text; and a replacement text that is itself the token in another
  casing leaves the token in the artifact.
\<close>

theorem C3_replacement_counterexample:
  "artifactText (createCertificate exampleApp (certificateFor ''Ana Silva'') (templateWorld ''Diploma''))
     = Some ''Diploma''
   \<and> \<not> occursIn True ''Ana Silva'' ''Diploma''
   \<and> artifactText (createCertificate exampleApp (certificateFor ''{{NAME}}'') (templateWorld ''For {{name}}''))
     = Some ''For {{NAME}}''
   \<and> occursIn False ''{{name}}'' ''For {{NAME}}''"
  by code_simp

text \<open>
  C3, amended: a call of \<open>createCertificate\<close> that finds the destination folder and
  the template, with a string as replacement text, issues exactly one call of
  \<open>batchUpdate\<close>, with the single request to replace the placeholder token, match
  case off, by the replacement text, against the copy of the template that it has
  just made and named, and stores the artifact; it returns the certificate with the
  id of the artifact when the script is bound to a spreadsheet, and otherwise throws
  a TypeError from \<open>showFeedback\<close>, the artifact stored all the same. The stored
  artifact holds the text of the template with every match replaced, from the left
  and without overlap. It contains the replacement text whenever the token, not
  empty, occurs in the template in some casing; and no occurrence of the token in any
  casing remains in it whenever the replacement text keeps the token out: the token
  is not empty, neither its first nor its last character occurs in the replacement
  text in any casing, and the replacement text does not occur in the token.
\<close>

theorem C3_replacement:
  assumes folder: "DESTINATION_FOLDER_ID app \<in> set (driveFolders w)"
    and template: "map_of (driveFiles w) (BASE_PRESENTATION_ID app) = Some f"
    and replacement: "placeholderReplacement c = Str r"
  shows "\<exists>stored artifactId clone artifact.
     createCertificate app c w =
       (case activeSpreadsheet w of
          None \<Rightarrow> Inl (TypeError, stored)
        | Some active \<Rightarrow>
            Inr (stored\<lparr>toasts := toasts w @ [certificateName c @ '' successfully created'']\<rparr>,
                 c\<lparr>certificateID_cert := artifactId\<rparr>))
     \<and> slidesCalls stored = slidesCalls w @
          [([\<lparr>replaceText = Str r, containsText = PLACEHOLDER app, matchCase = False\<rparr>], newId w)]
     \<and> map_of (driveFiles w) (newId w) = None
     \<and> map_of (driveFiles stored) (newId w) = Some clone
     \<and> fileName clone = certificateName c
     \<and> map_of (driveFiles stored) artifactId = Some artifact
     \<and> fileText artifact = replaceAll False (PLACEHOLDER app) r (fileText f)
     \<and> (PLACEHOLDER app \<noteq> [] \<and> occursIn False (PLACEHOLDER app) (fileText f)
          \<longrightarrow> occursIn True r (fileText artifact))
     \<and> (keepsTokenOut (PLACEHOLDER app) r
          \<longrightarrow> \<not> occursIn False (PLACEHOLDER app) (fileText artifact))"
proof -
  from createCertificate_ok [OF folder template replacement]
  obtain stored artifactId where
    run: "createCertificate app c w =
       (case activeSpreadsheet w of
          None \<Rightarrow> Inl (TypeError, stored)
        | Some active \<Rightarrow>
            Inr (stored\<lparr>toasts := toasts w @ [certificateName c @ '' successfully created'']\<rparr>,
                 c\<lparr>certificateID_cert := artifactId\<rparr>))"
    and kept: "map_of (driveFiles stored) artifactId =
       Some \<lparr>fileName = certificateName c,
             fileText = replaceAll False (PLACEHOLDER app) r (fileText f),
             trashed = False, parent = Some (DESTINATION_FOLDER_ID app)\<rparr>"
    and cloned: "map_of (driveFiles stored) (newId w) =
       Some \<lparr>fileName = certificateName c,
             fileText = replaceAll False (PLACEHOLDER app) r (fileText f),
             trashed = deletePresentationFlag c, parent = Some (DESTINATION_FOLDER_ID app)\<rparr>"
    and calls: "slidesCalls stored = slidesCalls w @
       [([\<lparr>replaceText = Str r, containsText = PLACEHOLDER app, matchCase = False\<rparr>], newId w)]"
    by blast
  show ?thesis
  proof (intro exI conjI)
    show "createCertificate app c w =
       (case activeSpreadsheet w of
          None \<Rightarrow> Inl (TypeError, stored)
        | Some active \<Rightarrow>
            Inr (stored\<lparr>toasts := toasts w @ [certificateName c @ '' successfully created'']\<rparr>,
                 c\<lparr>certificateID_cert := artifactId\<rparr>))"
      by (rule run)
    show "slidesCalls stored = slidesCalls w @
          [([\<lparr>replaceText = Str r, containsText = PLACEHOLDER app, matchCase = False\<rparr>], newId w)]"
      by (rule calls)
    show "map_of (driveFiles w) (newId w) = None"
      by (rule newId_fresh)
    show "map_of (driveFiles stored) (newId w) =
       Some \<lparr>fileName = certificateName c,
             fileText = replaceAll False (PLACEHOLDER app) r (fileText f),
             trashed = deletePresentationFlag c, parent = Some (DESTINATION_FOLDER_ID app)\<rparr>"
      by (rule cloned)
    show "fileName \<lparr>fileName = certificateName c,
             fileText = replaceAll False (PLACEHOLDER app) r (fileText f),
             trashed = deletePresentationFlag c, parent = Some (DESTINATION_FOLDER_ID app)\<rparr>
        = certificateName c"
      by simp
    show "map_of (driveFiles stored) artifactId =
       Some \<lparr>fileName = certificateName c,
             fileText = replaceAll False (PLACEHOLDER app) r (fileText f),
             trashed = False, parent = Some (DESTINATION_FOLDER_ID app)\<rparr>"
      by (rule kept)
    show "fileText \<lparr>fileName = certificateName c,
             fileText = replaceAll False (PLACEHOLDER app) r (fileText f),
             trashed = False, parent = Some (DESTINATION_FOLDER_ID app)\<rparr>
        = replaceAll False (PLACEHOLDER app) r (fileText f)"
      by simp
    show "PLACEHOLDER app \<noteq> [] \<and> occursIn False (PLACEHOLDER app) (fileText f)
          \<longrightarrow> occursIn True r (fileText \<lparr>fileName = certificateName c,
             fileText = replaceAll False (PLACEHOLDER app) r (fileText f),
             trashed = False, parent = Some (DESTINATION_FOLDER_ID app)\<rparr>)"
      by (simp add: replaceAll_contains)
    show "keepsTokenOut (PLACEHOLDER app) r
          \<longrightarrow> \<not> occursIn False (PLACEHOLDER app) (fileText \<lparr>fileName = certificateName c,
             fileText = replaceAll False (PLACEHOLDER app) r (fileText f),
             trashed = False, parent = Some (DESTINATION_FOLDER_ID app)\<rparr>)"
      by (simp add: no_token_remains)
  qed
qed

text \<open>
  C3 at a template that holds the token as \<open>{{Name}}\<close>, in a script bound to a
  spreadsheet and in one that is not.
\<close>

theorem C3_replacement_witness:
  "artifactText (createCertificate exampleApp (certificateFor ''Ana Silva'')
      (templateWorld ''Awarded to {{Name}}.'')) = Some ''Awarded to Ana Silva.''
   \<and> occursIn True ''Ana Silva'' ''Awarded to Ana Silva.''
   \<and> \<not> occursIn False ''{{name}}'' ''Awarded to Ana Silva.''
   \<and> (case createCertificate exampleApp (certificateFor ''Ana Silva'')
              ((templateWorld ''Awarded to {{Name}}.'')\<lparr>activeSpreadsheet := None\<rparr>) of
         Inl (err, stored) \<Rightarrow>
           err = TypeError
           \<and> map (\<lambda>entry. (fileName (snd entry), fileText (snd entry), trashed (snd entry))) (driveFiles stored)
               = [(''Certificate: Ana Silva'', ''Awarded to Ana Silva.'', False),
                  (''Certificate: Ana Silva'', ''Awarded to Ana Silva.'', True),
                  (''Template'', ''Awarded to {{Name}}.'', False)]
       | Inr result \<Rightarrow> False)"
proof -
  have folder: "DESTINATION_FOLDER_ID exampleApp \<in> set (driveFolders (templateWorld ''Awarded to {{Name}}.''))"
    by (simp add: exampleApp_def init_def templateWorld_def)
  have template: "map_of (driveFiles (templateWorld ''Awarded to {{Name}}.'')) (BASE_PRESENTATION_ID exampleApp)
      = Some \<lparr>fileName = ''Template'', fileText = ''Awarded to {{Name}}.'', trashed = False, parent = None\<rparr>"
    by (simp add: exampleApp_def init_def templateWorld_def)
  have replacement: "placeholderReplacement (certificateFor ''Ana Silva'') = Str ''Ana Silva''"
    by (simp add: certificateFor_def deletePresentation_def setPlaceholderReplacement_def)
  have token: "PLACEHOLDER exampleApp = ''{{name}}''"
    by (simp add: exampleApp_def init_def)
  have bound: "activeSpreadsheet (templateWorld ''Awarded to {{Name}}.'') = Some ''roster''"
    by (simp add: templateWorld_def)
  have replaced: "replaceAll False ''{{name}}'' ''Ana Silva'' ''Awarded to {{Name}}.'' = ''Awarded to Ana Silva.''"
    by code_simp
  have occurs: "occursIn False ''{{name}}'' ''Awarded to {{Name}}.''"
    by code_simp
  have out: "keepsTokenOut ''{{name}}'' ''Ana Silva''"
    by code_simp
  have unbound: "(case createCertificate exampleApp (certificateFor ''Ana Silva'')
              ((templateWorld ''Awarded to {{Name}}.'')\<lparr>activeSpreadsheet := None\<rparr>) of
         Inl (err, stored) \<Rightarrow>
           err = TypeError
           \<and> map (\<lambda>entry. (fileName (snd entry), fileText (snd entry), trashed (snd entry))) (driveFiles stored)
               = [(''Certificate: Ana Silva'', ''Awarded to Ana Silva.'', False),
                  (''Certificate: Ana Silva'', ''Awarded to Ana Silva.'', True),
                  (''Template'', ''Awarded to {{Name}}.'', False)]
       | Inr result \<Rightarrow> False)"
    by code_simp
  from C3_replacement [OF folder template replacement]
  obtain stored artifactId artifact where
    run: "createCertificate exampleApp (certificateFor ''Ana Silva'') (templateWorld ''Awarded to {{Name}}.'') =
       (case activeSpreadsheet (templateWorld ''Awarded to {{Name}}.'') of
          None \<Rightarrow> Inl (TypeError, stored)
        | Some active \<Rightarrow>
            Inr (stored\<lparr>toasts := toasts (templateWorld ''Awarded to {{Name}}.'') @
                     [certificateName (certificateFor ''Ana Silva'') @ '' successfully created'']\<rparr>,
                 (certificateFor ''Ana Silva'')\<lparr>certificateID_cert := artifactId\<rparr>))"
    and kept: "map_of (driveFiles stored) artifactId = Some artifact"
    and body: "fileText artifact = replaceAll False (PLACEHOLDER exampleApp) ''Ana Silva''
        (fileText \<lparr>fileName = ''Template'', fileText = ''Awarded to {{Name}}.'', trashed = False, parent = None\<rparr>)"
    and contained: "PLACEHOLDER exampleApp \<noteq> [] \<and> occursIn False (PLACEHOLDER exampleApp)
        (fileText \<lparr>fileName = ''Template'', fileText = ''Awarded to {{Name}}.'', trashed = False, parent = None\<rparr>)
          \<longrightarrow> occursIn True ''Ana Silva'' (fileText artifact)"
    and clean: "keepsTokenOut (PLACEHOLDER exampleApp) ''Ana Silva''
          \<longrightarrow> \<not> occursIn False (PLACEHOLDER exampleApp) (fileText artifact)"
    by blast
  from body have body': "fileText artifact = ''Awarded to Ana Silva.''"
    by (simp only: token DriveFile.simps replaced)
  from contained occurs have inside: "occursIn True ''Ana Silva'' (fileText artifact)"
    by (simp only: token DriveFile.simps) simp
  from clean out have gone: "\<not> occursIn False ''{{name}}'' (fileText artifact)"
    by (simp only: token) simp
  from run have "artifactText (createCertificate exampleApp (certificateFor ''Ana Silva'')
      (templateWorld ''Awarded to {{Name}}.'')) = Some (fileText artifact)"
    by (simp add: bound artifactText_def getCertificateID_def kept)
  with inside gone unbound show ?thesis
    by (simp only: body') simp
qed

section \<open>Creating all certificates\<close>

lemma forEach_createFor:
  assumes "length pre = k"
  shows "forEach (createFor app discard) [k..<k + length us] (w, pre @ us) =
     (case generateAllArtifacts app discard us w of
        Inl (err, w', us') \<Rightarrow> Inl (err, w', pre @ us')
      | Inr (w', us') \<Rightarrow> Inr (w', pre @ us'))"
  using assms
proof (induction us arbitrary: w pre k)
  case Nil
  then show ?case by simp
next
  case (Cons u us)
  define generator where
    "generator = \<lparr>placeholderReplacement = name u,
                   certificateName = ''Certificate: '' @ interpolate (name u),
                   deletePresentationFlag = discard, certificateID_cert = []\<rparr>"
  have "[k..<k + length (u # us)] = k # [Suc k..<k + length (u # us)]"
    by (rule upt_conv_Cons) simp
  then have indices: "[k..<k + length (u # us)] = k # [Suc k..<Suc k + length us]"
    by simp
  have spec_step: "generateAllArtifacts app discard (u # us) w =
      (case createCertificate app generator w of
         Inl (err, w1) \<Rightarrow> Inl (err, w1, u # us)
       | Inr (w1, g) \<Rightarrow>
           (case generateAllArtifacts app discard us w1 of
              Inl (err, w2, rest) \<Rightarrow> Inl (err, w2, u\<lparr>certificateID := Str (certificateID_cert g)\<rparr> # rest)
            | Inr (w2, us') \<Rightarrow> Inr (w2, u\<lparr>certificateID := Str (certificateID_cert g)\<rparr> # us')))"
    by (simp only: generateAllArtifacts.simps generator_def)
  have here: "(pre @ u # us) ! k = u"
    using Cons.prems by (simp add: nth_append)
  have there: "(pre @ u # us)[k := x] = pre @ x # us" for x
    unfolding Cons.prems [symmetric] by (rule list_update_length)
  have step: "createFor app discard k (w, pre @ u # us) =
      (case createCertificate app generator w of
         Inl (err, w1) \<Rightarrow> Inl (err, w1, pre @ u # us)
       | Inr (w1, g) \<Rightarrow> Inr (w1, (pre @ [u\<lparr>certificateID := Str (certificateID_cert g)\<rparr>]) @ us))"
    using Cons.prems
    by (simp add: createFor_def Let_def here there generator_def deletePresentation_def
        setPlaceholderReplacement_def setCertificateName_def newCertificate_def setCertificateID_def
        getCertificateID_def split: sum.splits prod.splits)
  show ?case
  proof (cases "createCertificate app generator w")
    case (Inl thrown)
    obtain err w1 where "thrown = (err, w1)" by (cases thrown)
    with Inl show ?thesis
      by (simp only: indices forEach.simps step spec_step) simp
  next
    case (Inr result)
    obtain w1 g where result: "result = (w1, g)" by (cases result)
    have "length (pre @ [u\<lparr>certificateID := Str (certificateID_cert g)\<rparr>]) = Suc k"
      using Cons.prems by simp
    from Cons.IH [OF this, of w1] Inr result show ?thesis
      by (simp only: indices forEach.simps step spec_step) (simp split: sum.splits prod.splits)
  qed
qed

lemma generateAllArtifacts_ok:
  assumes folder: "DESTINATION_FOLDER_ID app \<in> set (driveFolders w)"
    and template: "map_of (driveFiles w) (BASE_PRESENTATION_ID app) = Some f"
    and names: "\<forall>u \<in> set us. isStr (name u)"
    and bound: "activeSpreadsheet w = Some active"
  shows "\<exists>w' us'. generateAllArtifacts app discard us w = Inr (w', us')
     \<and> map name us' = map name us \<and> map email us' = map email us
     \<and> (\<forall>u \<in> set us'. truthy (certificateID u))
     \<and> map fst (slidesCalls w') = map fst (slidesCalls w) @ map (replaceRequestFor app) us
     \<and> feedback w' = feedback w @ map createdLine us
     \<and> toasts w' = toasts w @ map createdLine us"
  using assms
proof (induction us arbitrary: w)
  case Nil
  then show ?case by simp
next
  case (Cons u us)
  define generator where
    "generator = \<lparr>placeholderReplacement = name u,
                   certificateName = ''Certificate: '' @ interpolate (name u),
                   deletePresentationFlag = discard, certificateID_cert = []\<rparr>"
  from Cons.prems obtain r where r: "name u = Str r"
    by (cases "name u") (auto simp add: isStr_def)
  then have "placeholderReplacement generator = Str r"
    by (simp add: generator_def)
  from createCertificate_ok [OF Cons.prems(1) Cons.prems(2) this]
  obtain stored artifactId where
    run: "createCertificate app generator w =
       (case activeSpreadsheet w of
          None \<Rightarrow> Inl (TypeError, stored)
        | Some active \<Rightarrow>
            Inr (stored\<lparr>toasts := toasts w @ [certificateName generator @ '' successfully created'']\<rparr>,
                 generator\<lparr>certificateID_cert := artifactId\<rparr>))"
    and artifactId: "artifactId \<noteq> []"
    and template0: "map_of (driveFiles stored) (BASE_PRESENTATION_ID app) = Some f"
    and folders0: "driveFolders stored = driveFolders w"
    and calls0: "slidesCalls stored = slidesCalls w @
       [([\<lparr>replaceText = Str r, containsText = PLACEHOLDER app, matchCase = False\<rparr>], newId w)]"
    and feedback0: "feedback stored = feedback w @ [certificateName generator @ '' successfully created'']"
    and bound0: "activeSpreadsheet stored = activeSpreadsheet w"
    by blast
  define w1 where
    "w1 = stored\<lparr>toasts := toasts w @ [certificateName generator @ '' successfully created'']\<rparr>"
  have run1: "createCertificate app generator w = Inr (w1, generator\<lparr>certificateID_cert := artifactId\<rparr>)"
    using run Cons.prems(4) by (simp add: w1_def)
  have folder1: "DESTINATION_FOLDER_ID app \<in> set (driveFolders w1)"
    using Cons.prems(1) folders0 by (simp add: w1_def)
  have template1: "map_of (driveFiles w1) (BASE_PRESENTATION_ID app) = Some f"
    using template0 by (simp add: w1_def)
  have bound1: "activeSpreadsheet w1 = Some active"
    using bound0 Cons.prems(4) by (simp add: w1_def)
  have calls1: "slidesCalls w1 = slidesCalls w @
       [([\<lparr>replaceText = Str r, containsText = PLACEHOLDER app, matchCase = False\<rparr>], newId w)]"
    using calls0 by (simp add: w1_def)
  have feedback1: "feedback w1 = feedback w @ [certificateName generator @ '' successfully created'']"
    using feedback0 by (simp add: w1_def)
  have toasts1: "toasts w1 = toasts w @ [certificateName generator @ '' successfully created'']"
    by (simp add: w1_def)
  have "\<forall>u \<in> set us. isStr (name u)"
    using Cons.prems(3) by simp
  from Cons.IH [OF folder1 template1 this bound1]
  obtain w2 us' where
    rest: "generateAllArtifacts app discard us w1 = Inr (w2, us')"
    and same: "map name us' = map name us" "map email us' = map email us"
    and ids: "\<forall>u \<in> set us'. truthy (certificateID u)"
    and calls2: "map fst (slidesCalls w2) = map fst (slidesCalls w1) @ map (replaceRequestFor app) us"
    and feedback2: "feedback w2 = feedback w1 @ map createdLine us"
    and toasts2: "toasts w2 = toasts w1 @ map createdLine us"
    by blast
  have "generateAllArtifacts app discard (u # us) w =
      (case createCertificate app generator w of
         Inl (err, w1) \<Rightarrow> Inl (err, w1, u # us)
       | Inr (w1, g) \<Rightarrow>
           (case generateAllArtifacts app discard us w1 of
              Inl (err, w2, rest) \<Rightarrow> Inl (err, w2, u\<lparr>certificateID := Str (certificateID_cert g)\<rparr> # rest)
            | Inr (w2, us') \<Rightarrow> Inr (w2, u\<lparr>certificateID := Str (certificateID_cert g)\<rparr> # us')))"
    by (simp only: generateAllArtifacts.simps generator_def)
  then have "generateAllArtifacts app discard (u # us) w =
      Inr (w2, u\<lparr>certificateID := Str artifactId\<rparr> # us')"
    by (simp add: run1 rest)
  with same ids calls2 feedback2 toasts2 artifactId show ?case
    by (simp add: calls1 feedback1 toasts1 replaceRequestFor_def createdLine_def r generator_def)
qed

lemma generateAllArtifacts_unbound:
  assumes folder: "DESTINATION_FOLDER_ID app \<in> set (driveFolders w)"
    and template: "map_of (driveFiles w) (BASE_PRESENTATION_ID app) = Some f"
    and named: "isStr (name u)"
    and unbound: "activeSpreadsheet w = None"
  shows "\<exists>stored. generateAllArtifacts app discard (u # us) w = Inl (TypeError, stored, u # us)
     \<and> map fst (slidesCalls stored) = map fst (slidesCalls w) @ [replaceRequestFor app u]
     \<and> length (driveFiles stored) = length (driveFiles w) + 2
     \<and> feedback stored = feedback w @ [createdLine u]
     \<and> toasts stored = toasts w"
proof -
  define generator where
    "generator = \<lparr>placeholderReplacement = name u,
                   certificateName = ''Certificate: '' @ interpolate (name u),
                   deletePresentationFlag = discard, certificateID_cert = []\<rparr>"
  from named obtain r where r: "name u = Str r"
    by (cases "name u") (auto simp add: isStr_def)
  then have replacement: "placeholderReplacement generator = Str r"
    by (simp add: generator_def)
  define t where "t = replaceAll False (PLACEHOLDER app) r (fileText f)"
  define clone where
    "clone = \<lparr>fileName = certificateName generator, fileText = t, trashed = deletePresentationFlag generator,
               parent = Some (DESTINATION_FOLDER_ID app)\<rparr>"
  define artifact where
    "artifact = \<lparr>fileName = certificateName generator, fileText = t, trashed = False,
                  parent = Some (DESTINATION_FOLDER_ID app)\<rparr>"
  define i2 where "i2 = newId (w\<lparr>driveFiles := (newId w, clone) # driveFiles w\<rparr>)"
  define stored where
    "stored = w\<lparr>driveFiles := (i2, artifact) # (newId w, clone) # driveFiles w,
            slidesCalls := slidesCalls w @
              [([\<lparr>replaceText = Str r, containsText = PLACEHOLDER app, matchCase = False\<rparr>], newId w)],
            feedback := feedback w @ [certificateName generator @ '' successfully created'']\<rparr>"
  from createCertificate_result [OF folder template replacement t_def clone_def artifact_def
      i2_def stored_def] unbound
  have run: "createCertificate app generator w = Inl (TypeError, stored)"
    by simp
  have "generateAllArtifacts app discard (u # us) w =
      (case createCertificate app generator w of
         Inl (err, w1) \<Rightarrow> Inl (err, w1, u # us)
       | Inr (w1, g) \<Rightarrow>
           (case generateAllArtifacts app discard us w1 of
              Inl (err, w2, rest) \<Rightarrow> Inl (err, w2, u\<lparr>certificateID := Str (certificateID_cert g)\<rparr> # rest)
            | Inr (w2, us') \<Rightarrow> Inr (w2, u\<lparr>certificateID := Str (certificateID_cert g)\<rparr> # us')))"
    by (simp only: generateAllArtifacts.simps generator_def)
  then have "generateAllArtifacts app discard (u # us) w = Inl (TypeError, stored, u # us)"
    by (simp add: run)
  then show ?thesis
    by (simp add: stored_def replaceRequestFor_def createdLine_def r generator_def)
qed

text \<open>
  C2: \<open>createAllCertificates\<close> does what \<open>generateAllArtifacts\<close> says: it takes the
  users in list order, runs for each one a fresh Certificate with the name
  \<open>"Certificate: "\<close> + name, the name as replacement text and the processor's
  discard flag, and sets the id of the created certificate on that user; a throw ends
  the batch in the state it has reached. When the folder and the template exist, the
  names are strings and the script is bound to a spreadsheet, it ends well: the names
  and emails are kept, every user has a certificate id, and the requests, the feedback
  lines and the toasts come one per user in list order. When the script is bound to
  no spreadsheet, the first certificate is made and stored and its feedback line
  written, then \<open>showFeedback\<close> throws a TypeError and no user has been changed.
\<close>

theorem C2_generate_all:
  "createAllCertificates app bp w =
     (case generateAllArtifacts app (deletePresentations bp) (users bp) w of
        Inl (err, w', us') \<Rightarrow> Inl (err, w', bp\<lparr>users := us'\<rparr>)
      | Inr (w', us') \<Rightarrow> Inr (w', bp\<lparr>users := us'\<rparr>))
   \<and> (DESTINATION_FOLDER_ID app \<in> set (driveFolders w)
        \<and> map_of (driveFiles w) (BASE_PRESENTATION_ID app) = Some f
        \<and> (\<forall>u \<in> set (users bp). isStr (name u))
        \<and> activeSpreadsheet w = Some active \<longrightarrow>
       (\<exists>w' us'. createAllCertificates app bp w = Inr (w', bp\<lparr>users := us'\<rparr>)
          \<and> map name us' = map name (users bp) \<and> map email us' = map email (users bp)
          \<and> (\<forall>u \<in> set us'. truthy (certificateID u))
          \<and> map fst (slidesCalls w') = map fst (slidesCalls w) @ map (replaceRequestFor app) (users bp)
          \<and> feedback w' = feedback w @ map createdLine (users bp)
          \<and> toasts w' = toasts w @ map createdLine (users bp)))
   \<and> (DESTINATION_FOLDER_ID app \<in> set (driveFolders w)
        \<and> map_of (driveFiles w) (BASE_PRESENTATION_ID app) = Some f
        \<and> users bp = first # others \<and> isStr (name first)
        \<and> activeSpreadsheet w = None \<longrightarrow>
       (\<exists>stored. createAllCertificates app bp w = Inl (TypeError, stored, bp)
          \<and> map fst (slidesCalls stored) = map fst (slidesCalls w) @ [replaceRequestFor app first]
          \<and> length (driveFiles stored) = length (driveFiles w) + 2
          \<and> feedback stored = feedback w @ [createdLine first]
          \<and> toasts stored = toasts w))"
proof -
  have refine: "createAllCertificates app bp w =
     (case generateAllArtifacts app (deletePresentations bp) (users bp) w of
        Inl (err, w', us') \<Rightarrow> Inl (err, w', bp\<lparr>users := us'\<rparr>)
      | Inr (w', us') \<Rightarrow> Inr (w', bp\<lparr>users := us'\<rparr>))"
    using forEach_createFor [of "[]" 0 app "deletePresentations bp" "users bp" w]
    by (simp add: createAllCertificates_def split: sum.splits prod.splits)
  show ?thesis
  proof (intro conjI impI)
    show "createAllCertificates app bp w =
     (case generateAllArtifacts app (deletePresentations bp) (users bp) w of
        Inl (err, w', us') \<Rightarrow> Inl (err, w', bp\<lparr>users := us'\<rparr>)
      | Inr (w', us') \<Rightarrow> Inr (w', bp\<lparr>users := us'\<rparr>))"
      by (rule refine)
  next
    assume "DESTINATION_FOLDER_ID app \<in> set (driveFolders w)
        \<and> map_of (driveFiles w) (BASE_PRESENTATION_ID app) = Some f
        \<and> (\<forall>u \<in> set (users bp). isStr (name u))
        \<and> activeSpreadsheet w = Some active"
    then have "\<exists>w' us'. generateAllArtifacts app (deletePresentations bp) (users bp) w = Inr (w', us')
       \<and> map name us' = map name (users bp) \<and> map email us' = map email (users bp)
       \<and> (\<forall>u \<in> set us'. truthy (certificateID u))
       \<and> map fst (slidesCalls w') = map fst (slidesCalls w) @ map (replaceRequestFor app) (users bp)
       \<and> feedback w' = feedback w @ map createdLine (users bp)
       \<and> toasts w' = toasts w @ map createdLine (users bp)"
      by (intro generateAllArtifacts_ok) simp_all
    then show "\<exists>w' us'. createAllCertificates app bp w = Inr (w', bp\<lparr>users := us'\<rparr>)
          \<and> map name us' = map name (users bp) \<and> map email us' = map email (users bp)
          \<and> (\<forall>u \<in> set us'. truthy (certificateID u))
          \<and> map fst (slidesCalls w') = map fst (slidesCalls w) @ map (replaceRequestFor app) (users bp)
          \<and> feedback w' = feedback w @ map createdLine (users bp)
          \<and> toasts w' = toasts w @ map createdLine (users bp)"
      unfolding refine by force
  next
    assume given: "DESTINATION_FOLDER_ID app \<in> set (driveFolders w)
        \<and> map_of (driveFiles w) (BASE_PRESENTATION_ID app) = Some f
        \<and> users bp = first # others \<and> isStr (name first)
        \<and> activeSpreadsheet w = None"
    then have "\<exists>stored. generateAllArtifacts app (deletePresentations bp) (first # others) w
          = Inl (TypeError, stored, first # others)
       \<and> map fst (slidesCalls stored) = map fst (slidesCalls w) @ [replaceRequestFor app first]
       \<and> length (driveFiles stored) = length (driveFiles w) + 2
       \<and> feedback stored = feedback w @ [createdLine first]
       \<and> toasts stored = toasts w"
      by (intro generateAllArtifacts_unbound) simp_all
    then obtain stored where
      thrown: "generateAllArtifacts app (deletePresentations bp) (first # others) w
          = Inl (TypeError, stored, first # others)"
      and calls: "map fst (slidesCalls stored) = map fst (slidesCalls w) @ [replaceRequestFor app first]"
      and files: "length (driveFiles stored) = length (driveFiles w) + 2"
      and lines: "feedback stored = feedback w @ [createdLine first]"
      and shown: "toasts stored = toasts w"
      by blast
    from given have same: "bp\<lparr>users := first # others\<rparr> = bp"
      by simp
    from given thrown have "createAllCertificates app bp w = Inl (TypeError, stored, bp)"
      unfolding refine by (simp add: same)
    then show "\<exists>stored. createAllCertificates app bp w = Inl (TypeError, stored, bp)
          \<and> map fst (slidesCalls stored) = map fst (slidesCalls w) @ [replaceRequestFor app first]
          \<and> length (driveFiles stored) = length (driveFiles w) + 2
          \<and> feedback stored = feedback w @ [createdLine first]
          \<and> toasts stored = toasts w"
      using calls files lines shown by blast
  qed
qed

text \<open>
  C2 at two users, in a script bound to the spreadsheet \<open>roster\<close>: each gets the id
  of the artifact made from its own name. In a script bound to no spreadsheet the
  run throws after the first artifact and the users are as they were.
\<close>

theorem C2_generate_all_witness:
  "(\<exists>w' us'. createAllCertificates exampleApp twoLoaded (templateWorld ''Awarded to {{name}}.'')
        = Inr (w', twoLoaded\<lparr>users := us'\<rparr>)
      \<and> map name us' = [Str ''Ana Silva'', Str ''Carla Dias'']
      \<and> map fst (slidesCalls w') =
          [[\<lparr>replaceText = Str ''Ana Silva'', containsText = ''{{name}}'', matchCase = False\<rparr>],
           [\<lparr>replaceText = Str ''Carla Dias'', containsText = ''{{name}}'', matchCase = False\<rparr>]])
   \<and> (case createAllCertificates exampleApp twoLoaded (templateWorld ''Awarded to {{name}}.'') of
      Inl thrown \<Rightarrow> False
    | Inr (w', bp') \<Rightarrow>
        users bp' =
          [\<lparr>name = Str ''Ana Silva'', email = Str ''ana@example.org'', certificateID = Str ''xxx''\<rparr>,
           \<lparr>name = Str ''Carla Dias'', email = Str ''carla@example.org'', certificateID = Str ''xxxxx''\<rparr>]
        \<and> feedback w' = [''Certificate: Ana Silva successfully created'',
                         ''Certificate: Carla Dias successfully created'']
        \<and> toasts w' = [''Certificate: Ana Silva successfully created'',
                       ''Certificate: Carla Dias successfully created'']
        \<and> map_option fileText (map_of (driveFiles w') ''xxx'') = Some ''Awarded to Ana Silva.''
        \<and> map_option fileText (map_of (driveFiles w') ''xxxxx'') = Some ''Awarded to Carla Dias.'')
   \<and> (case createAllCertificates exampleApp twoLoaded
              ((templateWorld ''Awarded to {{name}}.'')\<lparr>activeSpreadsheet := None\<rparr>) of
      Inl (err, stored, bp') \<Rightarrow>
        err = TypeError \<and> bp' = twoLoaded
        \<and> feedback stored = [''Certificate: Ana Silva successfully created'']
        \<and> toasts stored = []
        \<and> map_option fileText (map_of (driveFiles stored) ''xxx'') = Some ''Awarded to Ana Silva.''
    | Inr result \<Rightarrow> False)"
proof (intro conjI)
  have given: "DESTINATION_FOLDER_ID exampleApp \<in> set (driveFolders (templateWorld ''Awarded to {{name}}.''))
      \<and> map_of (driveFiles (templateWorld ''Awarded to {{name}}.'')) (BASE_PRESENTATION_ID exampleApp)
          = Some \<lparr>fileName = ''Template'', fileText = ''Awarded to {{name}}.'', trashed = False, parent = None\<rparr>
      \<and> (\<forall>u \<in> set (users twoLoaded). isStr (name u))
      \<and> activeSpreadsheet (templateWorld ''Awarded to {{name}}.'') = Some ''roster''"
    by (simp add: exampleApp_def init_def templateWorld_def twoLoaded_def isStr_def)
  from C2_generate_all [of exampleApp twoLoaded "templateWorld ''Awarded to {{name}}.''",
      THEN conjunct2, THEN conjunct1, rule_format, OF given]
  obtain w' us' where
    ended: "createAllCertificates exampleApp twoLoaded (templateWorld ''Awarded to {{name}}.'')
        = Inr (w', twoLoaded\<lparr>users := us'\<rparr>)"
    and kept: "map name us' = map name (users twoLoaded)"
    and calls: "map fst (slidesCalls w') =
        map fst (slidesCalls (templateWorld ''Awarded to {{name}}.'')) @
        map (replaceRequestFor exampleApp) (users twoLoaded)"
    by blast
  have names: "map name us' = [Str ''Ana Silva'', Str ''Carla Dias'']"
    using kept by (simp add: twoLoaded_def)
  have requests: "map fst (slidesCalls w') =
          [[\<lparr>replaceText = Str ''Ana Silva'', containsText = ''{{name}}'', matchCase = False\<rparr>],
           [\<lparr>replaceText = Str ''Carla Dias'', containsText = ''{{name}}'', matchCase = False\<rparr>]]"
    using calls
    by (simp add: twoLoaded_def templateWorld_def replaceRequestFor_def exampleApp_def init_def)
  show "\<exists>w' us'. createAllCertificates exampleApp twoLoaded (templateWorld ''Awarded to {{name}}.'')
        = Inr (w', twoLoaded\<lparr>users := us'\<rparr>)
      \<and> map name us' = [Str ''Ana Silva'', Str ''Carla Dias'']
      \<and> map fst (slidesCalls w') =
          [[\<lparr>replaceText = Str ''Ana Silva'', containsText = ''{{name}}'', matchCase = False\<rparr>],
           [\<lparr>replaceText = Str ''Carla Dias'', containsText = ''{{name}}'', matchCase = False\<rparr>]]"
    by (intro exI conjI) (rule ended, rule names, rule requests)
next
  have run: "(case generateAllArtifacts exampleApp (deletePresentations twoLoaded) (users twoLoaded)
                 (templateWorld ''Awarded to {{name}}.'') of
      Inl thrown \<Rightarrow> False
    | Inr (w', us') \<Rightarrow>
        us' =
          [\<lparr>name = Str ''Ana Silva'', email = Str ''ana@example.org'', certificateID = Str ''xxx''\<rparr>,
           \<lparr>name = Str ''Carla Dias'', email = Str ''carla@example.org'', certificateID = Str ''xxxxx''\<rparr>]
        \<and> feedback w' = [''Certificate: Ana Silva successfully created'',
                         ''Certificate: Carla Dias successfully created'']
        \<and> toasts w' = [''Certificate: Ana Silva successfully created'',
                       ''Certificate: Carla Dias successfully created'']
        \<and> map_option fileText (map_of (driveFiles w') ''xxx'') = Some ''Awarded to Ana Silva.''
        \<and> map_option fileText (map_of (driveFiles w') ''xxxxx'') = Some ''Awarded to Carla Dias.'')"
    by code_simp
  from C2_generate_all [of exampleApp twoLoaded "templateWorld ''Awarded to {{name}}.''", THEN conjunct1] run
  show "case createAllCertificates exampleApp twoLoaded (templateWorld ''Awarded to {{name}}.'') of
      Inl thrown \<Rightarrow> False
    | Inr (w', bp') \<Rightarrow>
        users bp' =
          [\<lparr>name = Str ''Ana Silva'', email = Str ''ana@example.org'', certificateID = Str ''xxx''\<rparr>,
           \<lparr>name = Str ''Carla Dias'', email = Str ''carla@example.org'', certificateID = Str ''xxxxx''\<rparr>]
        \<and> feedback w' = [''Certificate: Ana Silva successfully created'',
                         ''Certificate: Carla Dias successfully created'']
        \<and> toasts w' = [''Certificate: Ana Silva successfully created'',
                       ''Certificate: Carla Dias successfully created'']
        \<and> map_option fileText (map_of (driveFiles w') ''xxx'') = Some ''Awarded to Ana Silva.''
        \<and> map_option fileText (map_of (driveFiles w') ''xxxxx'') = Some ''Awarded to Carla Dias.''"
    by (simp split: sum.splits prod.splits)
next
  have run: "(case generateAllArtifacts exampleApp (deletePresentations twoLoaded) (users twoLoaded)
                 ((templateWorld ''Awarded to {{name}}.'')\<lparr>activeSpreadsheet := None\<rparr>) of
      Inl (err, stored, us') \<Rightarrow>
        err = TypeError \<and> us' = users twoLoaded
        \<and> feedback stored = [''Certificate: Ana Silva successfully created'']
        \<and> toasts stored = []
        \<and> map_option fileText (map_of (driveFiles stored) ''xxx'') = Some ''Awarded to Ana Silva.''
    | Inr result \<Rightarrow> False)"
    by code_simp
  from C2_generate_all [of exampleApp twoLoaded
      "(templateWorld ''Awarded to {{name}}.'')\<lparr>activeSpreadsheet := None\<rparr>", THEN conjunct1] run
  show "case createAllCertificates exampleApp twoLoaded
              ((templateWorld ''Awarded to {{name}}.'')\<lparr>activeSpreadsheet := None\<rparr>) of
      Inl (err, stored, bp') \<Rightarrow>
        err = TypeError \<and> bp' = twoLoaded
        \<and> feedback stored = [''Certificate: Ana Silva successfully created'']
        \<and> toasts stored = []
        \<and> map_option fileText (map_of (driveFiles stored) ''xxx'') = Some ''Awarded to Ana Silva.''
    | Inr result \<Rightarrow> False"
    by (simp split: sum.splits prod.splits)
qed

end
